theory Spec2Isabelle
  imports Main "HOL-Library.Log_Nat"
begin

section \<open>JavaScript values\<close>

text \<open>
  A JavaScript string is a sequence of UTF-16 code units; the price pattern of the
  normalizer names the code units of the pound and euro signs, which do not fit an 8-bit
  character, so strings are lists of code units. \<open>js\<close> embeds an ASCII literal.
\<close>

type_synonym jstr = "nat list"

definition js :: "string \<Rightarrow> jstr" where
  "js s = map of_char s"

text \<open>
  A Number is NaN, an infinity, or a finite double given by its exact rational value
  (negative zero is not distinguished from zero: every use below clamps with
  \<open>Math.max(0, _)\<close> first, which yields positive zero for both).
\<close>

datatype jsnum = NaN | PInf | NInf | Fin rat

datatype jsval =
    JUndefined
  | JNull
  | JBool bool
  | JNum jsnum
  | JStr jstr
  | JArr "jsval list"
  | JObj "(jstr \<times> jsval) list"

text \<open>
  \<open>JObj\<close> holds the own enumerable string-keyed properties in the order of
  \<open>Object.entries\<close>. \<open>truthy\<close> is the ToBoolean conversion applied by \<open>!x\<close>, \<open>x || y\<close>
  and \<open>if (x)\<close>.
\<close>

fun truthy :: "jsval \<Rightarrow> bool" where
  "truthy JUndefined = False"
| "truthy JNull = False"
| "truthy (JBool b) = b"
| "truthy (JNum NaN) = False"
| "truthy (JNum (Fin r)) = (r \<noteq> 0)"
| "truthy (JNum _) = True"
| "truthy (JStr s) = (s \<noteq> [])"
| "truthy (JArr _) = True"
| "truthy (JObj _) = True"

definition truthy_str :: "jstr option \<Rightarrow> bool" where
  "truthy_str s = (case s of None \<Rightarrow> False | Some t \<Rightarrow> t \<noteq> [])"

section \<open>Responses and thrown values\<close>

record response =
  status :: nat
  data :: "jsval option"
  etag_header :: "jstr option"
  last_modified_header :: "jstr option"

text \<open>The keys of the \<open>ERROR_CODES\<close> table of the product service.\<close>

datatype error_code =
    TIMEOUT | NETWORK_ERROR | INVALID_RESPONSE | VALIDATION_ERROR | NOT_FOUND
  | SERVER_ERROR | TRANSFORM_ERROR | REQUEST_CANCELLED | UNAUTHORIZED | FORBIDDEN
  | RATE_LIMIT | UNKNOWN_ERROR

datatype log_level = LogWarn | LogInfo | LogError

record error_info =
  info_status :: nat
  info_message :: jstr
  info_retryable :: bool
  info_retryDelay :: "nat option"
  info_logLevel :: "log_level option"

fun ERROR_CODES :: "error_code \<Rightarrow> error_info" where
  "ERROR_CODES TIMEOUT = \<lparr>info_status = 408, info_message = js ''Request timed out'',
     info_retryable = True, info_retryDelay = Some 1000, info_logLevel = None\<rparr>"
| "ERROR_CODES NETWORK_ERROR = \<lparr>info_status = 0, info_message = js ''Network error'',
     info_retryable = True, info_retryDelay = Some 2000, info_logLevel = None\<rparr>"
| "ERROR_CODES INVALID_RESPONSE = \<lparr>info_status = 500, info_message = js ''Internal Server Error'',
     info_retryable = False, info_retryDelay = None, info_logLevel = Some LogError\<rparr>"
| "ERROR_CODES VALIDATION_ERROR = \<lparr>info_status = 400,
     info_message = js ''Invalid product information or parameters provided'',
     info_retryable = False, info_retryDelay = None, info_logLevel = Some LogWarn\<rparr>"
| "ERROR_CODES NOT_FOUND = \<lparr>info_status = 404,
     info_message = js ''Requested product could not be found'',
     info_retryable = False, info_retryDelay = None, info_logLevel = Some LogWarn\<rparr>"
| "ERROR_CODES SERVER_ERROR = \<lparr>info_status = 500, info_message = js ''Internal Server Error'',
     info_retryable = True, info_retryDelay = Some 3000, info_logLevel = None\<rparr>"
| "ERROR_CODES TRANSFORM_ERROR = \<lparr>info_status = 422,
     info_message = js ''Failed to process or transform product data'',
     info_retryable = False, info_retryDelay = None, info_logLevel = Some LogError\<rparr>"
| "ERROR_CODES REQUEST_CANCELLED = \<lparr>info_status = 499,
     info_message = js ''Product data request was cancelled'',
     info_retryable = False, info_retryDelay = None, info_logLevel = Some LogInfo\<rparr>"
| "ERROR_CODES UNAUTHORIZED = \<lparr>info_status = 401,
     info_message = js ''Unauthorized access to product data'',
     info_retryable = False, info_retryDelay = None, info_logLevel = Some LogWarn\<rparr>"
| "ERROR_CODES FORBIDDEN = \<lparr>info_status = 403,
     info_message = js ''Access forbidden to product data'',
     info_retryable = False, info_retryDelay = None, info_logLevel = Some LogWarn\<rparr>"
| "ERROR_CODES RATE_LIMIT = \<lparr>info_status = 429,
     info_message = js ''Too many requests to product service'',
     info_retryable = True, info_retryDelay = Some 5000, info_logLevel = None\<rparr>"
| "ERROR_CODES UNKNOWN_ERROR = \<lparr>info_status = 500,
     info_message = js ''An unexpected error occurred while processing product data'',
     info_retryable = True, info_retryDelay = Some 2000, info_logLevel = None\<rparr>"

text \<open>
  \<open>APIError\<close>: message, status and code as the constructor stores them; \<open>retryable\<close> and
  \<open>retryDelay\<close> are the two properties \<open>handleApiError\<close> adds to a retryable error. The
  free-form \<open>details\<close> bag and the timestamp are not modelled.
\<close>

record api_error =
  ae_message :: jstr
  ae_status :: nat
  ae_code :: error_code
  ae_retryable :: bool
  ae_retryDelay :: "nat option"

text \<open>
  An error as the HTTP client rejects with it: \<open>code\<close>, \<open>message\<close>, the response when one
  was received, and the status of the request object when one is attached.
\<close>

record axios_error =
  ax_code :: "jstr option"
  ax_message :: jstr
  ax_response :: "response option"
  ax_request :: "nat option"

text \<open>
  Everything the code under study throws or catches: \<open>undefined\<close> (what
  \<open>handleApiError\<close> receives when no attempt ran), a \<open>TransformError\<close> (message, field,
  value), an \<open>APIError\<close>, a plain \<open>Error\<close>, a \<open>TypeError\<close> of the runtime, a client
  error, the plain object the response interceptor rejects with on cancellation, and a DOM
  \<open>AbortError\<close>.
\<close>

datatype thrown =
    ThrownUndefined
  | TransformError jstr jstr jsval
  | APIError api_error
  | PlainError jstr
  | TypeError jstr
  | AxiosError axios_error
  | CancelRejection
  | AbortError jstr

fun thrown_name :: "thrown \<Rightarrow> jstr option" where
  "thrown_name ThrownUndefined = None"
| "thrown_name (TransformError m f v) = Some (js ''TransformError'')"
| "thrown_name (APIError e) = Some (js ''APIError'')"
| "thrown_name (PlainError m) = Some (js ''Error'')"
| "thrown_name (TypeError m) = Some (js ''TypeError'')"
| "thrown_name (AxiosError e) = Some (js ''AxiosError'')"
| "thrown_name CancelRejection = None"
| "thrown_name (AbortError m) = Some (js ''AbortError'')"

fun thrown_message :: "thrown \<Rightarrow> jstr option" where
  "thrown_message ThrownUndefined = None"
| "thrown_message (TransformError m f v) = Some m"
| "thrown_message (APIError e) = Some (ae_message e)"
| "thrown_message (PlainError m) = Some m"
| "thrown_message (TypeError m) = Some m"
| "thrown_message (AxiosError e) = Some (ax_message e)"
| "thrown_message CancelRejection = Some (js ''Request cancelled'')"
| "thrown_message (AbortError m) = Some m"

section \<open>Numbers: double arithmetic and \<open>toFixed\<close>\<close>

text \<open>
  The ambient runtime: \<open>process.env.NODE_ENV\<close>, and the runtime's \<open>Number::toString\<close>
  on a finite value of magnitude at least \<open>10^21\<close> (exponent notation, computed by the
  engine, not by this program), which \<open>toFixed\<close> falls back to.
\<close>

record env =
  NODE_ENV :: "jstr option"
  numberToString :: "rat \<Rightarrow> jstr"

definition pow2 :: "int \<Rightarrow> rat" where
  "pow2 k = (if 0 \<le> k then 2 ^ nat k else 1 / 2 ^ nat (- k))"

text \<open>The binary exponent of a positive rational \<open>a\<close>: the \<open>e\<close> with \<open>2^e \<le> a < 2^(e+1)\<close>.\<close>

definition ilog2 :: "rat \<Rightarrow> int" where
  "ilog2 a =
     (let (n, d) = quotient_of a;
          k = int (floorlog 2 (nat n)) - int (floorlog 2 (nat d))
      in if pow2 k \<le> a then k else k - 1)"

definition round_half_even :: "rat \<Rightarrow> int" where
  "round_half_even x =
     (let f = \<lfloor>x\<rfloor>; r = x - of_int f
      in if r < 1 / 2 then f
         else if 1 / 2 < r then f + 1
         else if even f then f else f + 1)"

text \<open>
  \<open>fl r\<close> is the double nearest to the real \<open>r\<close> (IEEE 754 binary64, round to nearest,
  ties to even): 53 significant bits, least exponent \<open>-1074\<close>, overflow to an infinity
  from \<open>2^1024\<close> on.
\<close>

definition fl :: "rat \<Rightarrow> jsnum" where
  "fl r =
     (if r = 0 then Fin 0
      else let a = \<bar>r\<bar>;
               q = max (ilog2 a - 52) (- 1074);
               v = of_int (round_half_even (a / pow2 q)) * pow2 q
           in if pow2 1024 \<le> v then (if 0 < r then PInf else NInf)
              else Fin (if 0 < r then v else - v))"

fun math_max0 :: "jsnum \<Rightarrow> jsnum" where
  "math_max0 NaN = NaN"
| "math_max0 PInf = PInf"
| "math_max0 NInf = Fin 0"
| "math_max0 (Fin r) = Fin (max 0 r)"

fun times100 :: "jsnum \<Rightarrow> jsnum" where
  "times100 (Fin r) = fl (r * 100)"
| "times100 x = x"

fun over100 :: "jsnum \<Rightarrow> jsnum" where
  "over100 (Fin r) = fl (r / 100)"
| "over100 x = x"

text \<open>\<open>Math.round\<close>: the nearest integer, a tie going up.\<close>

fun math_round :: "jsnum \<Rightarrow> jsnum" where
  "math_round (Fin r) = Fin (of_int \<lfloor>r + 1 / 2\<rfloor>)"
| "math_round x = x"

function dec :: "nat \<Rightarrow> jstr" where
  "dec n = (if n < 10 then [48 + n] else dec (n div 10) @ [48 + n mod 10])"
  by pat_completeness auto
termination
  by (relation "measure id") auto

declare dec.simps [simp del]

text \<open>
  \<open>x.toFixed(2)\<close>: a non-finite value prints as its name; a magnitude of \<open>10^21\<close> or more
  prints as \<open>Number::toString\<close> does; otherwise the integer \<open>n\<close> nearest to \<open>100 x\<close>
  (the larger on a tie) is printed with at least three digits and a point before the last
  two.
\<close>

definition toFixed2 :: "env \<Rightarrow> jsnum \<Rightarrow> jstr" where
  "toFixed2 rt x =
     (case x of
        NaN \<Rightarrow> js ''NaN''
      | PInf \<Rightarrow> js ''Infinity''
      | NInf \<Rightarrow> js ''-Infinity''
      | Fin r \<Rightarrow>
          let s = (if r < 0 then js ''-'' else []);
              a = \<bar>r\<bar>
          in if 10 ^ 21 \<le> a then s @ numberToString rt a
             else let m = dec (nat \<lfloor>a * 100 + 1 / 2\<rfloor>);
                      m = (if length m \<le> 2 then replicate (3 - length m) 48 @ m else m);
                      k = length m
                  in s @ take (k - 2) m @ js ''.'' @ drop (k - 2) m)"

section \<open>Record normalizer: \<open>transformProductResponse\<close>\<close>

text \<open>The class \<open>\s\<close> of the pattern, which is also what \<open>trim\<close> removes.\<close>

definition is_space :: "nat \<Rightarrow> bool" where
  "is_space c \<longleftrightarrow>
     c \<in> {9, 10, 11, 12, 13, 32, 160, 5760, 8232, 8233, 8239, 8287, 12288, 65279}
     \<or> (8192 \<le> c \<and> c \<le> 8202)"

text \<open>The class of the pattern: dollar (36), pound (163), euro (8364), comma (44), white space.\<close>

definition is_stripped :: "nat \<Rightarrow> bool" where
  "is_stripped c \<longleftrightarrow> c = 36 \<or> c = 163 \<or> c = 8364 \<or> c = 44 \<or> is_space c"

definition trim :: "jstr \<Rightarrow> jstr" where
  "trim s = rev (dropWhile is_space (rev (dropWhile is_space s)))"

definition is_digit :: "nat \<Rightarrow> bool" where
  "is_digit c \<longleftrightarrow> 48 \<le> c \<and> c \<le> 57"

text \<open>
  The test \<open>/^\d*\.?\d+$/\<close>: a non-empty run of digits, or a possibly empty run of
  digits, a point, and a non-empty run of digits.
\<close>

definition matches_decimal :: "jstr \<Rightarrow> bool" where
  "matches_decimal s =
     (case dropWhile is_digit s of
        [] \<Rightarrow> s \<noteq> []
      | c # t \<Rightarrow> c = 46 \<and> t \<noteq> [] \<and> list_all is_digit t)"

definition digits_value :: "jstr \<Rightarrow> nat" where
  "digits_value ds = foldl (\<lambda>acc c. 10 * acc + (c - 48)) 0 ds"

text \<open>
  \<open>parseFloat\<close> on the strings that reach it, which the test above confines to digits
  with at most one point: the double nearest to the decimal value. (A sign, an exponent
  or the word Infinity cannot reach it here.)
\<close>

definition parseFloat :: "jstr \<Rightarrow> jsnum" where
  "parseFloat s =
     (let ip = takeWhile is_digit s;
          fp = takeWhile is_digit (drop 1 (dropWhile is_digit s))
      in if ip = [] \<and> fp = [] then NaN
         else fl (of_nat (digits_value ip) + of_nat (digits_value fp) / 10 ^ length fp))"

definition transformPrice :: "env \<Rightarrow> jsval \<Rightarrow> jstr" where
  "transformPrice rt price =
     (if price = JNull \<or> price = JUndefined \<or> price = JObj [] \<or> price = JArr []
      then js ''0.00''
      else
        let parsed =
              (case price of
                 JStr p \<Rightarrow>
                   (let cleanPrice = trim (filter (\<lambda>c. \<not> is_stripped c) p)
                    in if \<not> matches_decimal cleanPrice then None
                       else Some (JNum (parseFloat cleanPrice)))
               | _ \<Rightarrow> Some price)
        in case parsed of
             None \<Rightarrow> js ''0.00''
           | Some (JNum NaN) \<Rightarrow> js ''0.00''
           | Some (JNum x) \<Rightarrow>
               (let roundedPrice = over100 (math_round (times100 (math_max0 x)))
                in toFixed2 rt roundedPrice)
           | Some _ \<Rightarrow> js ''0.00'')"

text \<open>
  The object \<open>transformed\<close> while it is built: its own properties in creation order, and
  its prototype, which starts as \<open>Object.prototype\<close> and changes only when the key
  \<open>__proto__\<close> is assigned (the assignment reaches the accessor that \<open>Object.prototype\<close>
  defines: an object or \<open>null\<close> becomes the prototype, any other value is ignored, and in
  no case is an own property created).
\<close>

datatype proto = ObjectPrototype | ProtoNull | ProtoValue jsval

record tobj =
  own :: "(jstr \<times> jsval) list"
  prototype :: proto

definition hasOwnProperty :: "tobj \<Rightarrow> jstr \<Rightarrow> bool" where
  "hasOwnProperty t key \<longleftrightarrow> key \<in> fst ` set (own t)"

text \<open>
  Whether \<open>transformed.hasOwnProperty\<close> still resolves to the built-in method: an own
  property of that name shadows it, so does such a property of an object installed as
  prototype, and a \<open>null\<close> prototype cuts the chain to \<open>Object.prototype\<close>.
\<close>

definition method_intact :: "tobj \<Rightarrow> bool" where
  "method_intact t \<longleftrightarrow>
     js ''hasOwnProperty'' \<notin> fst ` set (own t) \<and>
     (case prototype t of
        ObjectPrototype \<Rightarrow> True
      | ProtoNull \<Rightarrow> False
      | ProtoValue (JObj ps) \<Rightarrow> js ''hasOwnProperty'' \<notin> fst ` set ps
      | ProtoValue _ \<Rightarrow> True)"

text \<open>The assignment \<open>transformed[key] = value\<close> for a key that is not an own property.\<close>

definition assign :: "tobj \<Rightarrow> jstr \<Rightarrow> jsval \<Rightarrow> tobj" where
  "assign t key v =
     (if key = js ''__proto__'' then
        (case v of
           JObj ps \<Rightarrow> t\<lparr>prototype := ProtoValue v\<rparr>
         | JArr xs \<Rightarrow> t\<lparr>prototype := ProtoValue v\<rparr>
         | JNull \<Rightarrow> t\<lparr>prototype := ProtoNull\<rparr>
         | _ \<Rightarrow> t)
      else t\<lparr>own := own t @ [(key, v)]\<rparr>)"

text \<open>
  The loop over \<open>Object.entries(data)\<close>. Calling \<open>transformed.hasOwnProperty\<close> once it
  no longer resolves to a function raises a \<open>TypeError\<close>, which the enclosing \<open>catch\<close>
  turns into a \<open>TransformError\<close> carrying the engine's message.
\<close>

fun copy_fields :: "(jstr \<times> jsval) list \<Rightarrow> tobj \<Rightarrow> thrown + tobj" where
  "copy_fields [] t = Inr t"
| "copy_fields ((key, v) # rest) t =
     (if \<not> method_intact t then
        Inl (TransformError (js ''Failed to transform product data'') (js ''unknown'')
               (JStr (js ''transformed.hasOwnProperty is not a function'')))
      else if hasOwnProperty t key then copy_fields rest t
      else copy_fields rest (assign t key v))"

text \<open>\<open>data.key ?? dflt\<close>: the own property, unless it is absent, \<open>null\<close> or \<open>undefined\<close>.\<close>

definition field_or :: "(jstr \<times> jsval) list \<Rightarrow> jstr \<Rightarrow> jsval \<Rightarrow> jsval" where
  "field_or ps key dflt =
     (case map_of ps key of
        None \<Rightarrow> dflt
      | Some JNull \<Rightarrow> dflt
      | Some JUndefined \<Rightarrow> dflt
      | Some v \<Rightarrow> v)"

definition get_prop :: "(jstr \<times> jsval) list \<Rightarrow> jstr \<Rightarrow> jsval" where
  "get_prop ps key = (case map_of ps key of None \<Rightarrow> JUndefined | Some v \<Rightarrow> v)"

definition base_object :: "env \<Rightarrow> (jstr \<times> jsval) list \<Rightarrow> tobj" where
  "base_object rt ps =
     \<lparr>own = [(js ''id'', field_or ps (js ''id'') (JStr [])),
              (js ''title'', field_or ps (js ''title'') (JStr (js ''Untitled Product''))),
              (js ''description'',
                 field_or ps (js ''description'') (JStr (js ''No description available''))),
              (js ''price'', JStr (transformPrice rt (get_prop ps (js ''price'')))),
              (js ''image'', field_or ps (js ''image'') JNull),
              (js ''category'', field_or ps (js ''category'') (JStr (js ''Uncategorized'')))],
      prototype = ObjectPrototype\<rparr>"

fun transformProductResponse :: "env \<Rightarrow> jsval \<Rightarrow> thrown + tobj" where
  "transformProductResponse rt (JObj ps) = copy_fields ps (base_object rt ps)"
| "transformProductResponse rt d =
     Inl (TransformError (js ''No product data provided'') (js ''data'') d)"

section \<open>Error classifier: \<open>handleApiError\<close>\<close>

text \<open>
  The \<open>switch\<close> over \<open>error.response.status || 500\<close>: a zero status is falsy and is read
  as 500.
\<close>

definition status_code :: "nat \<Rightarrow> error_code" where
  "status_code st =
     (let responseStatus = (if st = 0 then 500 else st) in
      if responseStatus = 400 then VALIDATION_ERROR
      else if responseStatus = 401 then UNAUTHORIZED
      else if responseStatus = 403 then FORBIDDEN
      else if responseStatus = 404 then NOT_FOUND
      else if responseStatus = 422 then TRANSFORM_ERROR
      else if responseStatus = 429 then RATE_LIMIT
      else if responseStatus = 500 \<or> responseStatus = 502 \<or> responseStatus = 503
              \<or> responseStatus = 504 then SERVER_ERROR
      else UNKNOWN_ERROR)"

text \<open>
  The branch chain of \<open>handleApiError\<close> that picks the error code, in the source's order:
  no error, a \<open>TransformError\<close>, the code \<open>ECONNABORTED\<close>, a response, a request,
  and \<open>UNKNOWN_ERROR\<close> for the rest. An \<open>APIError\<close> has neither \<open>response\<close> nor
  \<open>request\<close>, and its \<open>code\<close> is a key of \<open>ERROR_CODES\<close>, never \<open>ECONNABORTED\<close>.
\<close>

fun classify :: "thrown \<Rightarrow> error_code" where
  "classify ThrownUndefined = UNKNOWN_ERROR"
| "classify (TransformError m f v) = TRANSFORM_ERROR"
| "classify (AxiosError e) =
     (if ax_code e = Some (js ''ECONNABORTED'') then TIMEOUT
      else case ax_response e of
             Some r \<Rightarrow> status_code (status r)
           | None \<Rightarrow> if ax_request e \<noteq> None then NETWORK_ERROR else UNKNOWN_ERROR)"
| "classify (APIError e) = UNKNOWN_ERROR"
| "classify (PlainError m) = UNKNOWN_ERROR"
| "classify (TypeError m) = UNKNOWN_ERROR"
| "classify CancelRejection = UNKNOWN_ERROR"
| "classify (AbortError m) = UNKNOWN_ERROR"

text \<open>
  \<open>handleApiError\<close> always throws; the model returns the \<open>APIError\<close> it throws together
  with the severity of the one log entry it writes. The message is the table's, the
  defaults of the destructuring are \<open>retryable = false\<close>, \<open>logLevel = 'error'\<close>,
  \<open>retryDelay = 1000\<close>; \<open>retryable\<close> and \<open>retryDelay\<close> are set on the error only when
  the entry is retryable.
\<close>

definition handleApiError :: "thrown \<Rightarrow> log_level \<times> api_error" where
  "handleApiError error =
     (let errorCode = classify error;
          errorInfo = ERROR_CODES errorCode;
          retryable = info_retryable errorInfo;
          logLevel = (case info_logLevel errorInfo of None \<Rightarrow> LogError | Some l \<Rightarrow> l);
          retryDelay = (case info_retryDelay errorInfo of None \<Rightarrow> 1000 | Some d \<Rightarrow> d)
      in (logLevel,
          \<lparr>ae_message = info_message errorInfo, ae_status = info_status errorInfo,
           ae_code = errorCode, ae_retryable = retryable,
           ae_retryDelay = (if retryable then Some retryDelay else None)\<rparr>))"

definition with_response :: "nat \<Rightarrow> thrown" where
  "with_response st = AxiosError \<lparr>ax_code = Some (js ''ERR_BAD_RESPONSE''),
     ax_message = js ''Request failed'',
     ax_response = Some \<lparr>status = st, data = None, etag_header = None,
                          last_modified_header = None\<rparr>,
     ax_request = Some st\<rparr>"

section \<open>Transport client: the \<open>api\<close> instance and its interceptors\<close>

text \<open>
  \<open>DEFAULT_CONFIG\<close> defines \<open>timeout\<close>, \<open>retryDelay\<close>, \<open>cacheMaxAge\<close>,
  \<open>staleWhileRevalidate\<close>, \<open>maxRetryAttempts\<close>, \<open>retryStatusCodes\<close> and
  \<open>validateStatus\<close>. It defines no property \<open>retries\<close>: reading
  \<open>DEFAULT_CONFIG.retries\<close> yields \<open>undefined\<close>, modelled as \<open>None\<close>.
\<close>

definition DEFAULT_timeout :: nat where "DEFAULT_timeout = 5000"
definition DEFAULT_retryDelay :: nat where "DEFAULT_retryDelay = 1000"
definition DEFAULT_maxRetryAttempts :: nat where "DEFAULT_maxRetryAttempts = 3"
definition DEFAULT_retryStatusCodes :: "nat list" where
  "DEFAULT_retryStatusCodes = [408, 429, 500, 502, 503, 504]"
definition DEFAULT_validateStatus :: "nat \<Rightarrow> bool" where
  "DEFAULT_validateStatus st \<longleftrightarrow> 200 \<le> st \<and> st < 300"
definition DEFAULT_retries :: "nat option" where "DEFAULT_retries = None"

text \<open>
  The network is the environment: \<open>net k\<close> is what happens to the \<open>k\<close>-th request put on
  the wire, a response, a failure without response, or a cancellation. The effects a call
  leaves behind are the number of requests sent and the trace of requests and waits (the
  interceptor adds a random jitter below 100 ms to its wait; the trace records the
  deterministic part).
\<close>

datatype net_result = NetResponse response | NetFailure axios_error | NetCancelled

datatype effect = NetRequest | InterceptorDelay nat | RetryDelay nat

record io =
  sent :: nat
  trace :: "effect list"

definition isRetryableError :: "axios_error \<Rightarrow> bool" where
  "isRetryableError e =
     (case ax_response e of None \<Rightarrow> True | Some r \<Rightarrow> status r \<in> set DEFAULT_retryStatusCodes)"

fun str_includes :: "jstr \<Rightarrow> jstr \<Rightarrow> bool" where
  "str_includes [] sub = (sub = [])"
| "str_includes (c # cs) sub = (take (length sub) (c # cs) = sub \<or> str_includes cs sub)"

text \<open>
  The client settles a response whose status \<open>validateStatus\<close> refuses as an error that
  carries the response.
\<close>

definition status_failure :: "response \<Rightarrow> axios_error" where
  "status_failure r =
     \<lparr>ax_code = (if 400 \<le> status r \<and> status r < 500 then Some (js ''ERR_BAD_REQUEST'')
                 else if 500 \<le> status r \<and> status r < 600 then Some (js ''ERR_BAD_RESPONSE'')
                 else None),
      ax_message = js ''Request failed with status code '' @ dec (status r),
      ax_response = Some r,
      ax_request = Some (status r)\<rparr>"

text \<open>The fulfilled handler of the response interceptor.\<close>

definition response_fulfilled :: "response \<Rightarrow> thrown + response" where
  "response_fulfilled r =
     (case data r of
        None \<Rightarrow> Inl (PlainError (js ''Invalid response received from server''))
      | Some d \<Rightarrow>
          if \<not> truthy d then Inl (PlainError (js ''Invalid response received from server''))
          else Inr r)"

text \<open>The message the rejected handler gives an error it does not retry.\<close>

definition rejected_message :: "axios_error \<Rightarrow> jstr" where
  "rejected_message e =
     (case ax_response e of
        Some r \<Rightarrow>
          (if status r = 400 then js ''Bad request - please check your input''
           else if status r = 401 then js ''Unauthorized - please authenticate''
           else if status r = 403
             then js ''Forbidden - you don't have permission to access this resource''
           else if status r = 404 then js ''Resource not found''
           else if status r = 429 then js ''Too many requests - please try again later''
           else if status r = 500 then js ''Internal server error''
           else if status r = 502 then js ''Bad gateway - the server is unreachable''
           else if status r = 503 then js ''Service unavailable - please try again later''
           else js ''An error occurred while processing your request'')
      | None \<Rightarrow>
          (case ax_request e of
             Some st \<Rightarrow>
               if st = 0
               then js ''Unable to connect to the server - please check your internet connection''
               else js ''No response received from server''
           | None \<Rightarrow>
               if ax_message e \<noteq> [] then ax_message e else js ''An unexpected error occurred''))"

text \<open>
  One dispatch through the instance: the request goes on the wire, the response
  interceptor sees the outcome. Its rejected handler passes a cancellation and a timeout
  on, sends the request again (through the whole chain) while \<open>config.retryCount\<close> is
  below \<open>maxRetryAttempts\<close> and the error is retryable, and otherwise rewrites the
  message and rejects. An error thrown by the fulfilled handler is not seen by the
  rejected handler of the same interceptor.
\<close>

function api_dispatch ::
  "(nat \<Rightarrow> net_result) \<Rightarrow> (nat \<Rightarrow> bool) \<Rightarrow> nat \<Rightarrow> nat \<Rightarrow> io \<Rightarrow> (thrown + response) \<times> io" where
  "api_dispatch net validateStatus timeout retryCount w =
     (let w1 = w\<lparr>sent := sent w + 1, trace := trace w @ [NetRequest]\<rparr>;
          settled = (case net (sent w) of
                       NetResponse r \<Rightarrow>
                         if validateStatus (status r) then Inr r
                         else Inl (Some (status_failure r))
                     | NetFailure e \<Rightarrow> Inl (Some e)
                     | NetCancelled \<Rightarrow> Inl None)
      in case settled of
           Inr r \<Rightarrow> (response_fulfilled r, w1)
         | Inl None \<Rightarrow> (Inl CancelRejection, w1)
         | Inl (Some e) \<Rightarrow>
             if ax_code e = Some (js ''ECONNABORTED'') \<and> str_includes (ax_message e) (js ''timeout'')
             then (Inl (AxiosError
                     (e\<lparr>ax_message := js ''Request timed out after '' @ dec timeout @ js ''ms''\<rparr>)),
                   w1)
             else if retryCount < DEFAULT_maxRetryAttempts \<and> isRetryableError e
             then api_dispatch net validateStatus timeout (retryCount + 1)
                    (w1\<lparr>trace := trace w1 @ [InterceptorDelay (DEFAULT_retryDelay * 2 ^ retryCount)]\<rparr>)
             else (Inl (AxiosError (e\<lparr>ax_message := rejected_message e\<rparr>)), w1))"
  by pat_completeness auto
termination
  by (relation "measure (\<lambda>(net, vs, timeout, retryCount, w). DEFAULT_maxRetryAttempts - retryCount)")
     auto

declare api_dispatch.simps [simp del]

text \<open>\<open>api.get\<close>: the request interceptor seeds \<open>config.retryCount\<close> with 0.\<close>

definition api_get ::
  "(nat \<Rightarrow> net_result) \<Rightarrow> (nat \<Rightarrow> bool) \<Rightarrow> nat \<Rightarrow> io \<Rightarrow> (thrown + response) \<times> io" where
  "api_get net validateStatus timeout w = api_dispatch net validateStatus timeout 0 w"

section \<open>Response validator: \<open>validateResponse\<close>\<close>

definition new_APIError :: "jstr \<Rightarrow> nat \<Rightarrow> error_code \<Rightarrow> api_error" where
  "new_APIError message st code =
     \<lparr>ae_message = message, ae_status = st, ae_code = code, ae_retryable = False,
      ae_retryDelay = None\<rparr>"

definition is_object :: "jsval \<Rightarrow> bool" where
  "is_object v = (case v of JNull \<Rightarrow> True | JArr xs \<Rightarrow> True | JObj ps \<Rightarrow> True | _ \<Rightarrow> False)"

definition is_array :: "jsval \<Rightarrow> bool" where
  "is_array v = (case v of JArr xs \<Rightarrow> True | _ \<Rightarrow> False)"

text \<open>
  \<open>validateResponse(response, {requireArray, allowEmpty})\<close> on a response object (the
  client never resolves with a missing response). \<open>data = None\<close> is a response without a
  \<open>data\<close> property.
\<close>

definition validateResponse :: "env \<Rightarrow> bool \<Rightarrow> bool \<Rightarrow> response \<Rightarrow> thrown + jsval" where
  "validateResponse rt requireArray allowEmpty r =
     (case data r of
        None \<Rightarrow> Inl (APIError (new_APIError (js ''Malformed API response: missing data property'')
                       500 INVALID_RESPONSE))
      | Some d \<Rightarrow>
          if d = JNull \<or> d = JUndefined then
            (if NODE_ENV rt = Some (js ''test'') then Inr (if requireArray then JArr [] else JNull)
             else Inl (APIError (new_APIError (js ''Invalid response: data is null'')
                         500 INVALID_RESPONSE)))
          else if requireArray \<and> \<not> is_array d then
            Inl (APIError (new_APIError (js ''Invalid response format: expected array'')
                   500 INVALID_RESPONSE))
          else if \<not> allowEmpty \<and> (d = JArr [] \<or> d = JObj []) then
            Inl (APIError (new_APIError (js ''Empty response received when data was required'')
                   500 INVALID_RESPONSE))
          else Inr d)"

section \<open>Fetch orchestrator: \<open>getProductById\<close>\<close>

text \<open>
  The options of \<open>getProductById\<close>; \<open>None\<close> is an omitted option. The signal is given by
  whether it reads as aborted once \<open>k\<close> requests have been sent.
\<close>

record get_options =
  opt_signal :: "(nat \<Rightarrow> bool) option"
  opt_timeout :: "nat option"
  opt_retries :: "nat option"
  opt_retryDelay :: "nat option"
  opt_cache :: "bool option"
  opt_etag :: "jstr option"
  opt_lastModified :: "jstr option"

definition timeout_of :: "get_options \<Rightarrow> nat" where
  "timeout_of opts = (case opt_timeout opts of None \<Rightarrow> DEFAULT_timeout | Some t \<Rightarrow> t)"

definition retries_of :: "get_options \<Rightarrow> nat option" where
  "retries_of opts = (case opt_retries opts of None \<Rightarrow> DEFAULT_retries | Some n \<Rightarrow> Some n)"

definition retryDelay_of :: "get_options \<Rightarrow> nat" where
  "retryDelay_of opts = (case opt_retryDelay opts of None \<Rightarrow> DEFAULT_retryDelay | Some d \<Rightarrow> d)"

text \<open>
  \<open>attempt <= retries\<close> and \<open>attempt >= retries\<close>: a comparison with \<open>undefined\<close> is
  false.
\<close>

definition le_retries :: "nat \<Rightarrow> nat option \<Rightarrow> bool" where
  "le_retries attempt retries = (case retries of None \<Rightarrow> False | Some n \<Rightarrow> attempt \<le> n)"

definition ge_retries :: "nat \<Rightarrow> nat option \<Rightarrow> bool" where
  "ge_retries attempt retries = (case retries of None \<Rightarrow> False | Some n \<Rightarrow> n \<le> attempt)"

definition signal_aborted :: "(nat \<Rightarrow> bool) option \<Rightarrow> io \<Rightarrow> bool" where
  "signal_aborted signal w = (case signal of None \<Rightarrow> False | Some aborted \<Rightarrow> aborted (sent w))"

text \<open>\<open>REQUEST_CONFIG.validateStatus\<close>: 2xx and 304.\<close>

definition REQUEST_validateStatus :: "nat \<Rightarrow> bool" where
  "REQUEST_validateStatus st \<longleftrightarrow> (200 \<le> st \<and> st < 300) \<or> st = 304"

text \<open>
  What \<open>getProductById\<close> resolves with: the spread of the normalized record (its own
  properties other than the three keys written after it) with \<open>cached\<close>, \<open>etag\<close> and
  \<open>lastModified\<close>, or the not-modified result of the 304 branch.
\<close>

record product_data =
  pd_fields :: "(jstr \<times> jsval) list"
  pd_cached :: bool
  pd_notModified :: bool
  pd_etag :: "jstr option"
  pd_lastModified :: "jstr option"

definition not_modified :: "response \<Rightarrow> product_data" where
  "not_modified r =
     \<lparr>pd_fields = [], pd_cached = True, pd_notModified = True, pd_etag = etag_header r,
      pd_lastModified = last_modified_header r\<rparr>"

definition with_cache_metadata :: "tobj \<Rightarrow> response \<Rightarrow> product_data" where
  "with_cache_metadata t r =
     \<lparr>pd_fields = filter (\<lambda>(k, v). k \<notin> {js ''cached'', js ''etag'', js ''lastModified''}) (own t),
      pd_cached = False, pd_notModified = False, pd_etag = etag_header r,
      pd_lastModified = last_modified_header r\<rparr>"

text \<open>The body of the inner \<open>try\<close>: one call of \<open>api.get\<close> and the handling of its response.\<close>

definition try_once ::
  "env \<Rightarrow> (nat \<Rightarrow> net_result) \<Rightarrow> get_options \<Rightarrow> io \<Rightarrow> (thrown + product_data) \<times> io" where
  "try_once rt net opts w =
     (case api_get net REQUEST_validateStatus (timeout_of opts) w of
        (Inl e, w1) \<Rightarrow> (Inl e, w1)
      | (Inr r, w1) \<Rightarrow>
          if status r = 304 then (Inr (not_modified r), w1)
          else
            (case validateResponse rt False False r of
               Inl e \<Rightarrow> (Inl e, w1)
             | Inr d \<Rightarrow>
                 if \<not> truthy d \<or> \<not> is_object d then
                   (Inl (APIError (new_APIError (js ''Invalid product data format'')
                           500 INVALID_RESPONSE)), w1)
                 else
                   (case transformProductResponse rt d of
                      Inl e \<Rightarrow> (Inl e, w1)
                    | Inr t \<Rightarrow> (Inr (with_cache_metadata t r), w1))))"

text \<open>
  \<open>ERROR_CODES[errorCode]?.retryable\<close> for the error caught in the loop: the code of an
  \<open>APIError\<close>, \<open>UNKNOWN_ERROR\<close> for anything else.
\<close>

definition caught_retryable :: "thrown \<Rightarrow> bool" where
  "caught_retryable error =
     info_retryable (ERROR_CODES (case error of APIError e \<Rightarrow> ae_code e | _ \<Rightarrow> UNKNOWN_ERROR))"

datatype attempt_exit = Returned product_data | Raised thrown | LoopLeft thrown

text \<open>
  The loop \<open>for (attempt = 0; attempt <= retries; attempt++)\<close>, from \<open>attempt\<close> on with the
  current \<open>lastError\<close>: it returns a result, raises the cancellation error from its
  \<open>catch\<close>, or is left (by \<open>break\<close> or by its condition) with \<open>lastError\<close>.
\<close>

function attempts ::
  "env \<Rightarrow> (nat \<Rightarrow> net_result) \<Rightarrow> get_options \<Rightarrow> nat \<Rightarrow> thrown \<Rightarrow> io \<Rightarrow> attempt_exit \<times> io" where
  "attempts rt net opts attempt lastError w =
     (if \<not> le_retries attempt (retries_of opts) then (LoopLeft lastError, w)
      else
        (case try_once rt net opts w of
           (Inr pd, w1) \<Rightarrow> (Returned pd, w1)
         | (Inl error, w1) \<Rightarrow>
             if thrown_name error = Some (js ''AbortError'') \<or> signal_aborted (opt_signal opts) w1
             then (Raised (APIError (new_APIError (js ''Product request cancelled'')
                             499 REQUEST_CANCELLED)), w1)
             else if \<not> caught_retryable error \<or> ge_retries attempt (retries_of opts)
             then (LoopLeft error, w1)
             else attempts rt net opts (attempt + 1) error
                    (w1\<lparr>trace := trace w1 @ [RetryDelay (retryDelay_of opts * 2 ^ attempt)]\<rparr>)))"
  by pat_completeness auto
termination
  by (relation "measure (\<lambda>(rt, net, opts, attempt, lastError, w).
                   case retries_of opts of None \<Rightarrow> 0 | Some n \<Rightarrow> Suc n - attempt)")
     (auto simp: le_retries_def ge_retries_def split: option.splits)

declare attempts.simps [simp del]

text \<open>
  The outer \<open>catch\<close>: whatever reaches it is turned into \<open>REQUEST_CANCELLED\<close> when the
  signal is aborted, and is classified by \<open>handleApiError\<close> otherwise.
\<close>

definition outer_catch :: "get_options \<Rightarrow> thrown \<Rightarrow> io \<Rightarrow> api_error" where
  "outer_catch opts error w =
     (if thrown_name error = Some (js ''AbortError'') \<or> signal_aborted (opt_signal opts) w
      then new_APIError (js ''Product request cancelled'') 499 REQUEST_CANCELLED
      else snd (handleApiError error))"

text \<open>
  \<open>getProductById(productId, options)\<close>. The error \<open>handleApiError\<close> throws after the loop
  is thrown inside the outer \<open>try\<close> and so passes through the outer \<open>catch\<close> as well.
\<close>

definition getProductById ::
  "env \<Rightarrow> (nat \<Rightarrow> net_result) \<Rightarrow> jsval \<Rightarrow> get_options \<Rightarrow> io \<Rightarrow> (api_error + product_data) \<times> io" where
  "getProductById rt net productId opts w =
     (if \<not> truthy productId \<or> (case productId of JStr s \<Rightarrow> False | _ \<Rightarrow> True)
      then (Inl (new_APIError (js ''Invalid or missing product ID'') 400 VALIDATION_ERROR), w)
      else
        (case attempts rt net opts 0 ThrownUndefined w of
           (Returned pd, w1) \<Rightarrow> (Inr pd, w1)
         | (Raised e, w1) \<Rightarrow> (Inl (outer_catch opts e w1), w1)
         | (LoopLeft lastError, w1) \<Rightarrow>
             (Inl (outer_catch opts (APIError (snd (handleApiError lastError))) w1), w1)))"

section \<open>Fetch orchestrator: \<open>getProducts\<close>\<close>

record list_options =
  lo_signal :: "(nat \<Rightarrow> bool) option"
  lo_validateStatus :: "(nat \<Rightarrow> bool) option"
  lo_allowEmpty :: "bool option"

record item_error =
  ie_index :: nat
  ie_productId :: jsval
  ie_error :: thrown
  ie_rawProduct :: jsval

record metadata =
  md_total :: nat
  md_transformed :: nat
  md_failed :: nat
  md_filters :: "(jstr \<times> jsval) list"

record response_data =
  products :: "tobj list"
  errors :: "item_error list option"
  metadata :: metadata

datatype products_result = Bare "tobj list" | Standard response_data

text \<open>The \<open>try\<close> block of the \<open>forEach\<close> callback.\<close>

definition transform_item :: "env \<Rightarrow> nat \<Rightarrow> jsval \<Rightarrow> thrown + tobj" where
  "transform_item rt index product =
     (if \<not> truthy product \<or> \<not> is_object product then
        Inl (TransformError (js ''Invalid product data format'') (js ''product_format'')
               (JObj [(js ''index'', JNum (Fin (of_nat index))), (js ''value'', product)]))
      else transformProductResponse rt product)"

text \<open>\<open>product?.id\<close>.\<close>

definition item_id :: "jsval \<Rightarrow> jsval" where
  "item_id product = (case product of JObj ps \<Rightarrow> get_prop ps (js ''id'') | _ \<Rightarrow> JUndefined)"

text \<open>The \<open>catch\<close> block of the callback: the entry pushed onto \<open>transformErrors\<close>.\<close>

definition error_entry :: "env \<Rightarrow> nat \<Rightarrow> jsval \<Rightarrow> thrown \<Rightarrow> item_error" where
  "error_entry rt index product error =
     \<lparr>ie_index = index,
      ie_productId = item_id product,
      ie_error = (case error of
                    TransformError m f v \<Rightarrow> error
                  | _ \<Rightarrow> TransformError (js ''Product transformation failed'') (js ''transform'')
                           (JObj [(js ''originalError'', JUndefined)])),
      ie_rawProduct = (if NODE_ENV rt = Some (js ''development'') then product else JUndefined)\<rparr>"

text \<open>
  \<open>data.forEach\<close> from \<open>index\<close> on, with the two accumulators \<open>transformedProducts\<close> and
  \<open>transformErrors\<close>.
\<close>

fun transform_each ::
  "env \<Rightarrow> nat \<Rightarrow> jsval list \<Rightarrow> tobj list \<times> item_error list \<Rightarrow> tobj list \<times> item_error list" where
  "transform_each rt index [] acc = acc"
| "transform_each rt index (product # rest) (transformedProducts, transformErrors) =
     (case transform_item rt index product of
        Inr t \<Rightarrow> transform_each rt (index + 1) rest (transformedProducts @ [t], transformErrors)
      | Inl error \<Rightarrow>
          transform_each rt (index + 1) rest
            (transformedProducts, transformErrors @ [error_entry rt index product error]))"

text \<open>
  \<open>Object.entries(filters)\<close> reduced to the entries whose value is not \<open>undefined\<close>;
  \<open>null\<close> passes the \<open>typeof\<close> test and makes \<open>Object.entries\<close> raise.
\<close>

definition filter_params :: "jsval \<Rightarrow> thrown + (jstr \<times> jsval) list" where
  "filter_params filters =
     (case filters of
        JObj ps \<Rightarrow> Inr (filter (\<lambda>(k, v). v \<noteq> JUndefined) ps)
      | JArr xs \<Rightarrow> Inr (filter (\<lambda>(k, v). v \<noteq> JUndefined) (zip (map dec [0..<length xs]) xs))
      | JNull \<Rightarrow> Inl (TypeError (js ''Cannot convert undefined or null to object''))
      | JUndefined \<Rightarrow> Inr []
      | _ \<Rightarrow> Inl (APIError (new_APIError (js ''Invalid filters parameter'') 400 VALIDATION_ERROR)))"

text \<open>
  \<open>getProducts(filters, options)\<close>. Every error, the cancellation error of the inner
  \<open>catch\<close> included, leaves through the outer \<open>catch\<close> and \<open>handleApiError\<close>. In the
  test environment the function returns the bare array of normalized records.
\<close>

definition getProducts ::
  "env \<Rightarrow> (nat \<Rightarrow> net_result) \<Rightarrow> jsval \<Rightarrow> list_options \<Rightarrow> io \<Rightarrow> (api_error + products_result) \<times> io" where
  "getProducts rt net filters opts w =
     (case filter_params filters of
        Inl e \<Rightarrow> (Inl (snd (handleApiError e)), w)
      | Inr params \<Rightarrow>
          (case api_get net
                  (case lo_validateStatus opts of None \<Rightarrow> DEFAULT_validateStatus | Some f \<Rightarrow> f)
                  DEFAULT_timeout w of
             (Inl error, w1) \<Rightarrow>
               (Inl (snd (handleApiError
                  (if thrown_name error = Some (js ''AbortError'') \<or> signal_aborted (lo_signal opts) w1
                   then APIError (new_APIError (js ''Products request cancelled'')
                          499 REQUEST_CANCELLED)
                   else error))), w1)
           | (Inr r, w1) \<Rightarrow>
               (case validateResponse rt True
                       (case lo_allowEmpty opts of None \<Rightarrow> True | Some b \<Rightarrow> b) r of
                  Inl error \<Rightarrow>
                    (Inl (snd (handleApiError
                       (if thrown_name error = Some (js ''AbortError'')
                           \<or> signal_aborted (lo_signal opts) w1
                        then APIError (new_APIError (js ''Products request cancelled'')
                               499 REQUEST_CANCELLED)
                        else error))), w1)
                | Inr d \<Rightarrow>
                    (let items = (case d of JArr xs \<Rightarrow> xs | _ \<Rightarrow> []);
                         (transformedProducts, transformErrors) = transform_each rt 0 items ([], []);
                         responseData =
                           \<lparr>products = transformedProducts,
                            errors = (if 0 < length transformErrors then Some transformErrors
                                      else None),
                            metadata = \<lparr>md_total = length items,
                                        md_transformed = length transformedProducts,
                                        md_failed = length transformErrors,
                                        md_filters = params\<rparr>\<rparr>
                     in if NODE_ENV rt = Some (js ''test'') then (Inr (Bare transformedProducts), w1)
                        else (Inr (Standard responseData), w1)))))"

section \<open>Request lifecycle coordinator: \<open>ProductPage\<close>\<close>

text \<open>The component state of \<open>useState\<close>.\<close>

record page_state =
  product :: "product_data option"
  loading :: bool
  error :: "jstr option"
  retryCount :: nat
  retryMessage :: "jstr option"
  etag :: "jstr option"
  lastModified :: "jstr option"
  lastFetchTime :: "nat option"

text \<open>
  The component instance: its state, the counter \<open>requestIdRef.current\<close>, the flag of
  \<open>useMountedState\<close>, the props, and the calls of \<open>getProductById\<close> that have not
  settled yet, each with what its closure holds: \<open>currentRequestId\<close>, \<open>productId\<close> and
  \<open>now\<close>.
\<close>

record coordinator =
  state :: page_state
  requestIdRef :: nat
  mountedRef :: bool
  productId :: jstr
  cacheTimeout :: nat
  inflight :: "(nat \<times> jstr \<times> nat) list"

definition initial_state :: page_state where
  "initial_state =
     \<lparr>product = None, loading = True, error = None, retryCount = 0, retryMessage = None,
      etag = None, lastModified = None, lastFetchTime = None\<rparr>"

definition safeSetState :: "coordinator \<Rightarrow> nat \<Rightarrow> (page_state \<Rightarrow> page_state) \<Rightarrow> coordinator" where
  "safeSetState c currentRequestId updater =
     (if mountedRef c \<and> currentRequestId = requestIdRef c
      then c\<lparr>state := updater (state c)\<rparr> else c)"

text \<open>
  \<open>fetchProduct\<close> up to its \<open>await\<close>: it mints the next request id, sets the loading
  state, and either reports the missing product id or leaves a call of \<open>getProductById\<close>
  in flight.
\<close>

definition fetchProduct :: "nat \<Rightarrow> coordinator \<Rightarrow> coordinator" where
  "fetchProduct now c0 =
     (let currentRequestId = requestIdRef c0 + 1;
          c1 = c0\<lparr>requestIdRef := currentRequestId\<rparr>;
          c2 = safeSetState c1 currentRequestId (\<lambda>prev. prev\<lparr>loading := True, error := None\<rparr>)
      in if productId c2 = [] then
           safeSetState c2 currentRequestId
             (\<lambda>prev. prev\<lparr>loading := False, error := Some (js ''Product ID is required'')\<rparr>)
         else
           (safeSetState c2 currentRequestId (\<lambda>prev. prev\<lparr>loading := True, error := None\<rparr>))
             \<lparr>inflight := inflight c2 @ [(currentRequestId, productId c2, now)]\<rparr>)"

text \<open>\<open>err.code === 'REQUEST_CANCELLED' || err.name === 'AbortError'\<close>.\<close>

definition is_cancellation :: "thrown \<Rightarrow> bool" where
  "is_cancellation err \<longleftrightarrow>
     (case err of
        APIError e \<Rightarrow> ae_code e = REQUEST_CANCELLED
      | AxiosError e \<Rightarrow> ax_code e = Some (js ''REQUEST_CANCELLED'')
      | _ \<Rightarrow> False)
     \<or> thrown_name err = Some (js ''AbortError'')"

text \<open>
  \<open>err.message || err.toString() || 'Failed to load product information'\<close>; an error
  object with an empty message prints as its name.
\<close>

definition error_text :: "thrown \<Rightarrow> jstr" where
  "error_text err =
     (case thrown_message err of
        Some m \<Rightarrow> if m \<noteq> [] then m
                  else (case thrown_name err of
                          Some n \<Rightarrow> if n \<noteq> [] then n
                                    else js ''Failed to load product information''
                        | None \<Rightarrow> js ''[object Object]'')
      | None \<Rightarrow> js ''Failed to load product information'')"

text \<open>
  The \<open>catch\<close> block of \<open>fetchProduct\<close>. (Reading \<open>err.code\<close> of \<open>undefined\<close> would
  raise inside the handler, which leaves the state as it is.)
\<close>

definition on_rejected :: "nat \<Rightarrow> thrown \<Rightarrow> coordinator \<Rightarrow> coordinator" where
  "on_rejected currentRequestId err c =
     (if err = ThrownUndefined \<or> is_cancellation err then c
      else safeSetState c currentRequestId
             (\<lambda>prev. prev\<lparr>loading := False, error := Some (error_text err),
                           retryCount := retryCount prev + 1\<rparr>))"

text \<open>
  The continuation of \<open>fetchProduct\<close> after \<open>getProductById\<close> has resolved with
  \<open>productData\<close> (\<open>None\<close>: a falsy result, for which the code throws
  \<open>Error('Product not found')\<close> into its own \<open>catch\<close>).
\<close>

definition on_resolved :: "nat \<Rightarrow> nat \<Rightarrow> product_data option \<Rightarrow> coordinator \<Rightarrow> coordinator" where
  "on_resolved currentRequestId now productData c =
     (case productData of
        None \<Rightarrow> on_rejected currentRequestId (PlainError (js ''Product not found'')) c
      | Some pd \<Rightarrow>
          safeSetState c currentRequestId
            (\<lambda>prev. prev\<lparr>product := Some pd, loading := False, error := None, retryCount := 0,
                          etag := (if truthy_str (pd_etag pd) then pd_etag pd else etag prev),
                          lastModified := (if truthy_str (pd_lastModified pd)
                                           then pd_lastModified pd else lastModified prev),
                          lastFetchTime := Some now\<rparr>))"

text \<open>
  The retry effect: with an error shown and \<open>retryCount < 3\<close> it arms a timer of
  \<open>Math.min(1000 * Math.pow(2, retryCount), 5000)\<close> ms.
\<close>

definition retry_delay :: "page_state \<Rightarrow> nat option" where
  "retry_delay s =
     (if truthy_str (error s) \<and> retryCount s < 3
      then Some (min (1000 * 2 ^ retryCount s) 5000) else None)"

text \<open>The test of \<open>checkAndRefresh\<close> in the revalidation effect.\<close>

definition stale :: "coordinator \<Rightarrow> nat \<Rightarrow> bool" where
  "stale c now =
     (case lastFetchTime (state c) of
        None \<Rightarrow> False
      | Some t \<Rightarrow> t \<noteq> 0 \<and> t + cacheTimeout c \<le> now)"

text \<open>
  What the component renders: the loading container, the error message with or without the
  retry button (\<open>canRetry && <button ...>\<close>), the not-found message, or the product.
\<close>

datatype view = LoadingView | ErrorView jstr bool | NotFoundView | ProductView product_data

definition render :: "page_state \<Rightarrow> view" where
  "render s =
     (if loading s then LoadingView
      else if truthy_str (error s)
      then ErrorView (case error s of Some m \<Rightarrow> m | None \<Rightarrow> []) (retryCount s < 3)
      else case product s of None \<Rightarrow> NotFoundView | Some p \<Rightarrow> ProductView p)"

fun retry_button :: "view \<Rightarrow> bool" where
  "retry_button (ErrorView m canRetry) = canRetry"
| "retry_button v = False"

text \<open>
  What can happen to a mounted component: the \<open>productId\<close> prop changes (the fetch effect
  runs \<open>fetchProduct\<close> again), a call in flight resolves or rejects, the retry timer or
  the revalidation interval fires, the user clicks the retry button, the component is
  unmounted. A resolved call for product \<open>p\<close> delivers \<open>backend p\<close>. Timers are cleared
  and effects no longer run once the component is unmounted; promises still settle.
\<close>

datatype event =
    ChangeId jstr nat
  | Resolve nat
  | Reject nat thrown
  | RetryTimer nat
  | RevalidateTick nat
  | ClickRetry nat
  | Unmount

definition settle_call ::
  "nat \<Rightarrow> (nat \<Rightarrow> coordinator \<Rightarrow> coordinator) \<Rightarrow> coordinator \<Rightarrow> coordinator" where
  "settle_call tok continue c =
     (case find (\<lambda>(t, p, n). t = tok) (inflight c) of
        None \<Rightarrow> c
      | Some (t, p, n) \<Rightarrow> continue n (c\<lparr>inflight := filter (\<lambda>(t, p, n). t \<noteq> tok) (inflight c)\<rparr>))"

definition call_productId :: "nat \<Rightarrow> coordinator \<Rightarrow> jstr" where
  "call_productId tok c =
     (case find (\<lambda>(t, p, n). t = tok) (inflight c) of None \<Rightarrow> [] | Some (t, p, n) \<Rightarrow> p)"

fun step :: "(jstr \<Rightarrow> product_data option) \<Rightarrow> event \<Rightarrow> coordinator \<Rightarrow> coordinator" where
  "step backend (ChangeId pid now) c =
     (if \<not> mountedRef c \<or> pid = productId c then c
      else fetchProduct now (c\<lparr>productId := pid\<rparr>))"
| "step backend (Resolve tok) c =
     settle_call tok (\<lambda>now. on_resolved tok now (backend (call_productId tok c))) c"
| "step backend (Reject tok err) c = settle_call tok (\<lambda>now. on_rejected tok err) c"
| "step backend (RetryTimer now) c =
     (if mountedRef c \<and> retry_delay (state c) \<noteq> None then fetchProduct now c else c)"
| "step backend (RevalidateTick now) c =
     (if mountedRef c \<and> stale c now then fetchProduct now c else c)"
| "step backend (ClickRetry now) c =
     (if mountedRef c \<and> retry_button (render (state c)) then fetchProduct now c else c)"
| "step backend Unmount c = c\<lparr>mountedRef := False\<rparr>"

definition run :: "(jstr \<Rightarrow> product_data option) \<Rightarrow> coordinator \<Rightarrow> event list \<Rightarrow> coordinator" where
  "run backend c evs = foldl (\<lambda>c e. step backend e c) c evs"

text \<open>The component after its first render and mount effects.\<close>

definition mount :: "jstr \<Rightarrow> nat \<Rightarrow> nat \<Rightarrow> coordinator" where
  "mount pid timeout now =
     fetchProduct now
       \<lparr>state = initial_state, requestIdRef = 0, mountedRef = True, productId = pid,
        cacheTimeout = timeout, inflight = []\<rparr>"

text \<open>The state in which the product is shown.\<close>

definition success :: "page_state \<Rightarrow> bool" where
  "success s \<longleftrightarrow> \<not> loading s \<and> \<not> truthy_str (error s) \<and> product s \<noteq> None"

section \<open>Sample inputs and auxiliary notions for the statements\<close>

text \<open>Two runtimes, differing in \<open>NODE_ENV\<close>.\<close>

definition test_env :: env where
  "test_env = \<lparr>NODE_ENV = Some (js ''test''), numberToString = (\<lambda>r. [])\<rparr>"

definition production_env :: env where
  "production_env = \<lparr>NODE_ENV = Some (js ''production''), numberToString = (\<lambda>r. [])\<rparr>"

text \<open>A network that answers every request with the same response; nothing sent yet.\<close>

definition always :: "response \<Rightarrow> nat \<Rightarrow> net_result" where
  "always r k = NetResponse r"

definition idle :: io where
  "idle = \<lparr>sent = 0, trace = []\<rparr>"

text \<open>
  A 304 response as a server sends it, without a body (the client presents the empty body
  as the empty string), and a 404 response.
\<close>

definition not_modified_response :: response where
  "not_modified_response =
     \<lparr>status = 304, data = Some (JStr []), etag_header = Some (js ''v2''),
      last_modified_header = None\<rparr>"

definition not_found_response :: response where
  "not_found_response =
     \<lparr>status = 404, data = Some (JObj []), etag_header = None, last_modified_header = None\<rparr>"

text \<open>The options \<open>ProductPage\<close> passes, and the same with \<open>retries\<close> omitted.\<close>

definition two_retries :: get_options where
  "two_retries =
     \<lparr>opt_signal = None, opt_timeout = Some 5000, opt_retries = Some 2, opt_retryDelay = None,
      opt_cache = None, opt_etag = Some (js ''v1''), opt_lastModified = None\<rparr>"

definition unknown_error :: api_error where
  "unknown_error =
     \<lparr>ae_message = js ''An unexpected error occurred while processing product data'',
      ae_status = 500, ae_code = UNKNOWN_ERROR, ae_retryable = True, ae_retryDelay = Some 2000\<rparr>"

text \<open>
  The six canonical fields; the shape "digits, a point, two digits"; and a price string of
  310 digits, a one followed by 309 zeros.
\<close>

definition canonical_keys :: "jstr list" where
  "canonical_keys =
     [js ''id'', js ''title'', js ''description'', js ''price'', js ''image'', js ''category'']"

definition two_decimals :: "jstr \<Rightarrow> bool" where
  "two_decimals s \<longleftrightarrow>
     4 \<le> length s \<and> s ! (length s - 3) = 46
     \<and> list_all is_digit (take (length s - 3) s) \<and> list_all is_digit (drop (length s - 2) s)"

definition huge_price :: jstr where
  "huge_price = 49 # replicate 309 48"

text \<open>
  Collection payloads: \<open>[null, {id: "1"}, 3]\<close>, \<open>[{id: "7"}, "x"]\<close>, the empty
  sequence and \<open>[{id: "7"}]\<close>; the default options and the options \<open>{allowEmpty: false}\<close>.
\<close>

definition listing :: response where
  "listing =
     \<lparr>status = 200,
      data = Some (JArr [JNull, JObj [(js ''id'', JStr (js ''1''))], JNum (Fin 3)]),
      etag_header = None, last_modified_header = None\<rparr>"


definition empty_listing :: response where
  "empty_listing =
     \<lparr>status = 200, data = Some (JArr []), etag_header = None, last_modified_header = None\<rparr>"

definition clean_listing :: response where
  "clean_listing =
     \<lparr>status = 200, data = Some (JArr [JObj [(js ''id'', JStr (js ''7''))]]),
      etag_header = None, last_modified_header = None\<rparr>"

definition require_items :: list_options where
  "require_items = \<lparr>lo_signal = None, lo_validateStatus = None, lo_allowEmpty = Some False\<rparr>"

definition no_options :: list_options where
  "no_options = \<lparr>lo_signal = None, lo_validateStatus = None, lo_allowEmpty = None\<rparr>"

text \<open>
  The indices of the items of a payload that fail normalization, and the per-item error
  entries of a result (\<open>errors\<close> is \<open>null\<close> when there are none).
\<close>

definition failing :: "env \<Rightarrow> jsval list \<Rightarrow> nat list" where
  "failing rt items = filter (\<lambda>i. isl (transform_item rt i (items ! i))) [0..<length items]"

definition item_errors :: "response_data \<Rightarrow> item_error list" where
  "item_errors rd = (case errors rd of None \<Rightarrow> [] | Some es \<Rightarrow> es)"

text \<open>What the loop of \<open>getProducts\<close> pushes onto each of its two accumulators.\<close>

fun successes :: "env \<Rightarrow> nat \<Rightarrow> jsval list \<Rightarrow> tobj list" where
  "successes rt index [] = []"
| "successes rt index (item # rest) =
     (case transform_item rt index item of Inr t \<Rightarrow> [t] | Inl e \<Rightarrow> [])
     @ successes rt (index + 1) rest"

fun failures :: "env \<Rightarrow> nat \<Rightarrow> jsval list \<Rightarrow> item_error list" where
  "failures rt index [] = []"
| "failures rt index (item # rest) =
     (case transform_item rt index item of
        Inr t \<Rightarrow> [] | Inl e \<Rightarrow> [error_entry rt index item e])
     @ failures rt (index + 1) rest"

text \<open>Events that change the subject id, and a burst of such changes.\<close>

fun is_change :: "event \<Rightarrow> bool" where
  "is_change (ChangeId pid now) = True"
| "is_change e = False"

definition change_events :: "(jstr \<times> nat) list \<Rightarrow> event list" where
  "change_events changes = map (\<lambda>(pid, now). ChangeId pid now) changes"

text \<open>A backend whose record for an id carries that id; two rejections.\<close>

definition sample_backend :: "jstr \<Rightarrow> product_data option" where
  "sample_backend p =
     Some \<lparr>pd_fields = [(js ''id'', JStr p)], pd_cached = False, pd_notModified = False,
            pd_etag = None, pd_lastModified = None\<rparr>"

definition cancelled :: thrown where
  "cancelled = APIError (new_APIError (js ''Product request cancelled'') 499 REQUEST_CANCELLED)"

definition fetch_failure :: thrown where
  "fetch_failure = APIError unknown_error"

text \<open>The component after one failed fetch, and after three.\<close>

definition failed_once :: coordinator where
  "failed_once = run sample_backend (mount (js ''123'') 300000 0) [Reject 1 fetch_failure]"

definition exhausted :: coordinator where
  "exhausted =
     run sample_backend (mount (js ''123'') 300000 0)
       [Reject 1 fetch_failure, RetryTimer 1000, Reject 2 fetch_failure, RetryTimer 3000,
        Reject 3 fetch_failure]"

text \<open>
  The invariant behind the anti-race property: no call in flight carries a request id
  above the counter, the call that carries the current id was issued for the current
  product id, and a product on show is the backend's record for the current product id.
\<close>

definition tokens_ok :: "coordinator \<Rightarrow> bool" where
  "tokens_ok c \<longleftrightarrow>
     (\<forall>(t, p, n) \<in> set (inflight c). t \<le> requestIdRef c \<and> (t = requestIdRef c \<longrightarrow> p = productId c))"

definition shows_current :: "(jstr \<Rightarrow> product_data option) \<Rightarrow> coordinator \<Rightarrow> bool" where
  "shows_current be c \<longleftrightarrow>
     tokens_ok c \<and> (success (state c) \<longrightarrow> product (state c) = be (productId c))"

section \<open>Basic facts\<close>

lemma js_inj: "js s = js t \<longleftrightarrow> s = t"
proof -
  have "inj (of_char :: char \<Rightarrow> nat)"
    by (rule inj_of_char)
  then show ?thesis
    by (auto simp: js_def inj_map_eq_map)
qed

lemma js_Nil: "js s = [] \<longleftrightarrow> s = []"
  by (simp add: js_def)

section \<open>Claims about the error classifier\<close>

lemma classify_response:
  assumes "ax_code e \<noteq> Some (js ''ECONNABORTED'')" and "ax_response e = Some r"
  shows "classify (AxiosError e) = status_code (status r)"
  using assms by simp

text \<open>
  C5 (counterexample). The claim sends every 5xx status to \<open>SERVER_ERROR\<close>. The switch
  lists 500, 502, 503 and 504 only: a failure carrying a response with status 501 is
  classified \<open>UNKNOWN_ERROR\<close>.
\<close>

theorem C5_every_5xx_counterexample:
  "ae_code (snd (handleApiError (with_response 501))) = UNKNOWN_ERROR
   \<and> ae_code (snd (handleApiError (with_response 501))) \<noteq> SERVER_ERROR"
  by (simp add: handleApiError_def with_response_def status_code_def js_inj)

text \<open>
  C5 (amended). For a failure that carries an HTTP response and is neither a normalizer
  error nor coded \<open>ECONNABORTED\<close>, the classifier maps 400 to \<open>VALIDATION_ERROR\<close>, 401
  to \<open>UNAUTHORIZED\<close>, 403 to \<open>FORBIDDEN\<close>, 404 to \<open>NOT_FOUND\<close>, 422 to
  \<open>TRANSFORM_ERROR\<close>, 429 to \<open>RATE_LIMIT\<close>, the statuses 500, 502, 503 and 504 (and a
  zero status, read as 500) to \<open>SERVER_ERROR\<close>, and every other status, the remaining
  5xx included, to \<open>UNKNOWN_ERROR\<close>.
\<close>

theorem C5_status_mapping:
  assumes "ax_code e \<noteq> Some (js ''ECONNABORTED'')" and "ax_response e = Some r"
  shows "ae_code (snd (handleApiError (AxiosError e))) =
     (if status r = 400 then VALIDATION_ERROR
      else if status r = 401 then UNAUTHORIZED
      else if status r = 403 then FORBIDDEN
      else if status r = 404 then NOT_FOUND
      else if status r = 422 then TRANSFORM_ERROR
      else if status r = 429 then RATE_LIMIT
      else if status r \<in> {0, 500, 502, 503, 504} then SERVER_ERROR
      else UNKNOWN_ERROR)"
proof -
  have "ae_code (snd (handleApiError (AxiosError e))) = classify (AxiosError e)"
    by (simp add: handleApiError_def Let_def)
  also have "\<dots> = status_code (status r)"
    using assms by (rule classify_response)
  finally show ?thesis
    by (simp add: status_code_def Let_def)
qed

theorem C5_status_mapping_witness:
  "ae_code (snd (handleApiError (with_response 429))) = RATE_LIMIT
   \<and> ae_code (snd (handleApiError (with_response 503))) = SERVER_ERROR
   \<and> ae_code (snd (handleApiError (with_response 505))) = UNKNOWN_ERROR"
proof -
  have c: "ax_code \<lparr>ax_code = Some (js ''ERR_BAD_RESPONSE''), ax_message = js ''Request failed'',
             ax_response = Some \<lparr>status = st, data = None, etag_header = None,
                                  last_modified_header = None\<rparr>,
             ax_request = Some st\<rparr> \<noteq> Some (js ''ECONNABORTED'')" for st
    by (simp add: js_inj)
  show ?thesis
    using C5_status_mapping [OF c [of 429], of "\<lparr>status = 429, data = None, etag_header = None,
                                  last_modified_header = None\<rparr>"]
          C5_status_mapping [OF c [of 503], of "\<lparr>status = 503, data = None, etag_header = None,
                                  last_modified_header = None\<rparr>"]
          C5_status_mapping [OF c [of 505], of "\<lparr>status = 505, data = None, etag_header = None,
                                  last_modified_header = None\<rparr>"]
    by (simp add: with_response_def)
qed

section \<open>Claims about \<open>getProductById\<close>\<close>

lemma attempts_no_retries:
  "retries_of opts = None \<Longrightarrow> attempts rt net opts attempt lastError w = (LoopLeft lastError, w)"
  by (simp add: attempts.simps le_retries_def)

lemma api_get_rejects_empty_body:
  "api_get (always not_modified_response) REQUEST_validateStatus t w =
     (Inl (PlainError (js ''Invalid response received from server'')),
      w\<lparr>sent := sent w + 1, trace := trace w @ [NetRequest]\<rparr>)"
  by (simp add: api_get_def api_dispatch.simps always_def not_modified_response_def
      REQUEST_validateStatus_def response_fulfilled_def)

lemma try_once_empty_body:
  "try_once rt (always not_modified_response) opts w =
     (Inl (PlainError (js ''Invalid response received from server'')),
      w\<lparr>sent := sent w + 1, trace := trace w @ [NetRequest]\<rparr>)"
  by (simp add: try_once_def api_get_rejects_empty_body)

lemma try_once_not_found:
  "try_once rt (always not_found_response) opts w =
     (Inl (AxiosError ((status_failure not_found_response)
             \<lparr>ax_message := rejected_message (status_failure not_found_response)\<rparr>)),
      w\<lparr>sent := sent w + 1, trace := trace w @ [NetRequest]\<rparr>)"
  by (simp add: try_once_def api_get_def api_dispatch.simps always_def not_found_response_def
      REQUEST_validateStatus_def status_failure_def isRetryableError_def js_inj
      DEFAULT_retryStatusCodes_def)

text \<open>
  With \<open>retries: 2\<close> passed explicitly, a fetch that fails with 404 every time is attempted
  three times, with waits of 1000 and 2000 ms, before the error is raised.
\<close>

lemma explicit_retries_three_attempts:
  "getProductById rt (always not_found_response) (JStr (js ''123'')) two_retries idle =
     (Inl unknown_error,
      \<lparr>sent = 3, trace = [NetRequest, RetryDelay 1000, NetRequest, RetryDelay 2000, NetRequest]\<rparr>)"
  by (simp add: getProductById_def attempts.simps try_once_not_found two_retries_def
      retries_of_def le_retries_def ge_retries_def outer_catch_def handleApiError_def
      signal_aborted_def js_inj js_Nil caught_retryable_def retryDelay_of_def
      DEFAULT_retryDelay_def idle_def unknown_error_def)

text \<open>
  C2 (code bug). With \<open>opts.retries\<close> omitted the default is \<open>DEFAULT_CONFIG.retries\<close>,
  which \<open>DEFAULT_CONFIG\<close> does not define; the loop condition \<open>0 <= undefined\<close> is false,
  so for a valid id and any network, even one that would answer, no request is sent and
  \<open>UNKNOWN_ERROR\<close> is raised at once. The claim promises up to three attempts.
\<close>

theorem C2_omitted_retries_sends_nothing:
  "getProductById rt net (JStr (js ''123'')) (opts\<lparr>opt_retries := None, opt_signal := None\<rparr>) idle
     = (Inl unknown_error, idle)"
  by (simp add: getProductById_def attempts_no_retries retries_of_def DEFAULT_retries_def
      outer_catch_def handleApiError_def signal_aborted_def js_inj js_Nil unknown_error_def)

text \<open>
  C2 (witness). In production, against a server that answers 404, with the options of
  \<open>ProductPage\<close> less \<open>retries\<close>: nothing is sent.
\<close>

theorem C2_omitted_retries_sends_nothing_witness:
  "getProductById production_env (always not_found_response) (JStr (js ''123''))
     (two_retries\<lparr>opt_retries := None, opt_signal := None\<rparr>) idle
     = (Inl unknown_error, idle)"
  by (rule C2_omitted_retries_sends_nothing)

text \<open>
  The part of C4 that holds: a 304 response that gets past the response interceptor is
  turned into the not-modified result, carrying the two validators, with no validation
  and no normalization of its body.
\<close>

lemma not_modified_short_circuit:
  assumes "api_get net REQUEST_validateStatus (timeout_of opts) w = (Inr r, w1)"
    and "status r = 304"
  shows "try_once rt net opts w =
     (Inr \<lparr>pd_fields = [], pd_cached = True, pd_notModified = True, pd_etag = etag_header r,
            pd_lastModified = last_modified_header r\<rparr>, w1)"
  using assms by (simp add: try_once_def not_modified_def)

text \<open>
  C4 (code bug). The response interceptor checks \<open>!response.data\<close> on every fulfilled
  response, a 304 included. A 304 as servers send it has no body, so it is rejected with
  \<open>Error('Invalid response received from server')\<close>; \<open>getProductById\<close> retries it and,
  after three requests, raises \<open>UNKNOWN_ERROR\<close> instead of returning the not-modified
  result.
\<close>

theorem C4_bodyless_304_is_rejected:
  "getProductById rt (always not_modified_response) (JStr (js ''123'')) two_retries idle =
     (Inl unknown_error,
      \<lparr>sent = 3, trace = [NetRequest, RetryDelay 1000, NetRequest, RetryDelay 2000, NetRequest]\<rparr>)"
  by (simp add: getProductById_def attempts.simps try_once_empty_body two_retries_def
      retries_of_def le_retries_def ge_retries_def outer_catch_def handleApiError_def
      signal_aborted_def js_inj js_Nil caught_retryable_def retryDelay_of_def
      DEFAULT_retryDelay_def idle_def unknown_error_def)

text \<open>C4 (witness). The same run in the production runtime.\<close>

theorem C4_bodyless_304_is_rejected_witness:
  "fst (getProductById production_env (always not_modified_response) (JStr (js ''123''))
          two_retries idle) = Inl unknown_error"
  using C4_bodyless_304_is_rejected [of production_env] by simp

section \<open>Claims about the record normalizer\<close>

text \<open>
  Facts about the model of double arithmetic: \<open>ilog2\<close> is the binary exponent,
  \<open>fl\<close> is decided by exponent and rounded significand, and it overflows from
  \<open>2^1024\<close> on.
\<close>

lemma pow2_powi: "pow2 k = 2 powi k"
  by (simp add: pow2_def power_int_def power_inverse inverse_eq_divide power_one_over)

lemma pow2_pos: "0 < pow2 k"
  by (simp add: pow2_powi)

lemma pow2_add: "pow2 (j + k) = pow2 j * pow2 k"
  by (simp add: pow2_powi power_int_add)

lemma pow2_strict_mono: "j < k \<Longrightarrow> pow2 j < pow2 k"
  by (simp add: pow2_powi power_int_strict_increasing)

lemma pow2_mono: "j \<le> k \<Longrightarrow> pow2 j \<le> pow2 k"
  by (simp add: pow2_powi power_int_increasing)

lemma pow2_nat: "pow2 (int n) = 2 ^ n"
  by (simp add: pow2_def)

lemma ilog2_bounds:
  assumes "0 < a"
  shows "pow2 (ilog2 a) \<le> a \<and> a < pow2 (ilog2 a + 1)"
proof -
  obtain n d where q: "quotient_of a = (n, d)" by (cases "quotient_of a")
  then have d: "0 < d" and a: "a = of_int n / of_int d"
    by (simp_all add: quotient_of_denom_pos quotient_of_div)
  with assms have n: "0 < n"
    by (simp add: zero_less_divide_iff)
  define bn where "bn = floorlog 2 (nat n)"
  define bd where "bd = floorlog 2 (nat d)"
  have nb: "2 ^ (bn - 1) \<le> nat n \<and> nat n < 2 ^ bn"
    unfolding bn_def using n by (intro floorlog_bounds) simp_all
  have db: "2 ^ (bd - 1) \<le> nat d \<and> nat d < 2 ^ bd"
    unfolding bd_def using d by (intro floorlog_bounds) simp_all
  have "bn \<noteq> 0" and "bd \<noteq> 0"
    using n d by (simp_all add: bn_def bd_def floorlog_eq_zero_iff)
  then have bn1: "1 \<le> bn" and bd1: "1 \<le> bd"
    by simp_all
  have rn: "(2::rat) ^ (bn - 1) \<le> of_int n \<and> (of_int n :: rat) < 2 ^ bn"
  proof -
    have "of_nat (2 ^ (bn - 1)) \<le> (of_nat (nat n) :: rat) \<and> (of_nat (nat n) :: rat) < of_nat (2 ^ bn)"
      using nb by (simp only: of_nat_le_iff of_nat_less_iff)
    with n show ?thesis by simp
  qed
  have rd: "(2::rat) ^ (bd - 1) \<le> of_int d \<and> (of_int d :: rat) < 2 ^ bd"
  proof -
    have "of_nat (2 ^ (bd - 1)) \<le> (of_nat (nat d) :: rat) \<and> (of_nat (nat d) :: rat) < of_nat (2 ^ bd)"
      using db by (simp only: of_nat_le_iff of_nat_less_iff)
    with d show ?thesis by simp
  qed
  let ?k = "int bn - int bd"
  have dpos: "(0::rat) < of_int d" using d by simp
  have up: "a < pow2 (?k + 1)"
  proof -
    have "of_int n < (2::rat) ^ bn" using rn by simp
    also have "\<dots> = pow2 (?k + 1) * 2 ^ (bd - 1)"
    proof -
      have "pow2 (?k + 1) * pow2 (int (bd - 1)) = pow2 (?k + 1 + int (bd - 1))"
        by (rule pow2_add [symmetric])
      also have "?k + 1 + int (bd - 1) = int bn" using bd1 by simp
      finally show ?thesis by (simp add: pow2_nat)
    qed
    also have "\<dots> \<le> pow2 (?k + 1) * of_int d"
      using rd pow2_pos [of "?k + 1"] by (simp add: mult_left_mono)
    finally show ?thesis
      using dpos by (simp add: a pos_divide_less_eq)
  qed
  have low: "pow2 (?k - 1) \<le> a"
  proof -
    have "pow2 (?k - 1) * of_int d \<le> pow2 (?k - 1) * 2 ^ bd"
      using rd pow2_pos [of "?k - 1"] by (simp add: mult_left_mono)
    also have "\<dots> = 2 ^ (bn - 1)"
    proof -
      have "pow2 (?k - 1) * pow2 (int bd) = pow2 (?k - 1 + int bd)"
        by (rule pow2_add [symmetric])
      also have "?k - 1 + int bd = int (bn - 1)" using bn1 by simp
      finally show ?thesis by (simp add: pow2_nat)
    qed
    also have "\<dots> \<le> of_int n" using rn by simp
    finally show ?thesis
      using dpos by (simp add: a pos_le_divide_eq)
  qed
  have il: "ilog2 a = (if pow2 ?k \<le> a then ?k else ?k - 1)"
    by (simp add: ilog2_def q bn_def bd_def Let_def)
  show ?thesis
  proof (cases "pow2 ?k \<le> a")
    case True
    with il up show ?thesis by simp
  next
    case False
    with il low show ?thesis by simp
  qed
qed

lemma ilog2_eqI:
  assumes "pow2 e \<le> a" and "a < pow2 (e + 1)"
  shows "ilog2 a = e"
proof -
  have "0 < a" using assms(1) pow2_pos [of e] by simp
  then have b: "pow2 (ilog2 a) \<le> a" "a < pow2 (ilog2 a + 1)"
    using ilog2_bounds by simp_all
  have "\<not> e + 1 \<le> ilog2 a"
  proof
    assume "e + 1 \<le> ilog2 a"
    then have "pow2 (e + 1) \<le> pow2 (ilog2 a)" by (rule pow2_mono)
    with b(1) assms(2) show False by simp
  qed
  moreover have "\<not> ilog2 a + 1 \<le> e"
  proof
    assume "ilog2 a + 1 \<le> e"
    then have "pow2 (ilog2 a + 1) \<le> pow2 e" by (rule pow2_mono)
    with b(2) assms(1) show False by simp
  qed
  ultimately show ?thesis by simp
qed

lemma round_half_even_eqI:
  assumes "\<bar>x - of_int m\<bar> < 1 / 2"
  shows "round_half_even x = m"
proof -
  from assms have "x - of_int m < 1 / 2 \<and> - (x - of_int m) < 1 / 2"
    unfolding abs_less_iff .
  then have lo: "of_int m - 1 / 2 < x" and hi: "x < of_int m + 1 / 2"
    by linarith+
  show ?thesis
  proof (cases "of_int m \<le> x")
    case True
    with hi have "\<lfloor>x\<rfloor> = m" by (simp add: floor_eq_iff)
    with hi show ?thesis by (simp add: round_half_even_def)
  next
    case False
    with lo have f: "\<lfloor>x\<rfloor> = m - 1" by (simp add: floor_eq_iff)
    with lo show ?thesis by (simp add: round_half_even_def)
  qed
qed

lemma round_half_even_ge:
  assumes "of_int k \<le> x"
  shows "k \<le> round_half_even x"
proof -
  from assms have "k \<le> \<lfloor>x\<rfloor>" by (simp add: le_floor_iff)
  then show ?thesis by (simp add: round_half_even_def Let_def)
qed

lemma fl_eqI:
  assumes "pow2 e \<le> r" and "r < pow2 (e + 1)"
    and "q = max (e - 52) (- 1074)"
    and "\<bar>r / pow2 q - of_int m\<bar> < 1 / 2"
    and "of_int m * pow2 q < pow2 1024"
  shows "fl r = Fin (of_int m * pow2 q)"
proof -
  have r: "0 < r" using assms(1) pow2_pos [of e] by simp
  have "ilog2 r = e" using assms(1,2) by (rule ilog2_eqI)
  moreover have "round_half_even (r / pow2 q) = m"
    using assms(4) by (rule round_half_even_eqI)
  ultimately show ?thesis
    using r assms(3,5) by (simp add: fl_def Let_def)
qed

lemma fl_overflow:
  assumes "pow2 1024 \<le> r"
  shows "fl r = PInf"
proof -
  have r: "0 < r" using assms pow2_pos [of 1024] by simp
  then have b: "pow2 (ilog2 r) \<le> r" "r < pow2 (ilog2 r + 1)"
    using ilog2_bounds by simp_all
  have e: "1024 \<le> ilog2 r"
  proof (rule ccontr)
    assume "\<not> 1024 \<le> ilog2 r"
    then have "ilog2 r + 1 \<le> 1024" by simp
    then have "pow2 (ilog2 r + 1) \<le> pow2 1024" by (rule pow2_mono)
    with b(2) assms show False by simp
  qed
  let ?q = "ilog2 r - 52"
  have q: "max ?q (- 1074) = ?q" using e by simp
  have p: "pow2 52 * pow2 ?q = pow2 (ilog2 r)"
    using pow2_add [of 52 ?q] by simp
  then have "of_int (2 ^ 52) \<le> r / pow2 ?q"
    using b(1) pow2_pos [of ?q] by (simp add: pos_le_divide_eq pow2_def)
  then have "2 ^ 52 \<le> round_half_even (r / pow2 ?q)"
    by (rule round_half_even_ge)
  then have "(of_int (2 ^ 52) :: rat) \<le> of_int (round_half_even (r / pow2 ?q))"
    by (simp only: of_int_le_iff)
  then have "pow2 52 * pow2 ?q \<le> of_int (round_half_even (r / pow2 ?q)) * pow2 ?q"
    using pow2_pos [of ?q] by (simp add: pow2_def)
  also note p
  finally have "pow2 1024 \<le> of_int (round_half_even (r / pow2 ?q)) * pow2 ?q"
    using pow2_mono [OF e] by simp
  with r q show ?thesis
    by (simp add: fl_def Let_def)
qed

text \<open>
  The parts of C3 that hold: an absent price and a string that does not match the pattern
  give \<open>"0.00"\<close>, and so does every value that is neither a string nor a number.
\<close>

lemma transformPrice_absent:
  "transformPrice rt JNull = js ''0.00''" "transformPrice rt JUndefined = js ''0.00''"
  "transformPrice rt (JObj []) = js ''0.00''"
  by (simp_all add: transformPrice_def)

lemma transformPrice_unmatched:
  "\<not> matches_decimal (trim (filter (\<lambda>c. \<not> is_stripped c) p)) \<Longrightarrow>
     transformPrice rt (JStr p) = js ''0.00''"
  by (simp add: transformPrice_def)

lemma transformPrice_not_a_number:
  "transformPrice rt (JBool b) = js ''0.00''" "transformPrice rt (JArr xs) = js ''0.00''"
  "transformPrice rt (JObj ps) = js ''0.00''" "transformPrice rt (JNum NaN) = js ''0.00''"
  by (simp_all add: transformPrice_def)

lemma transformPrice_negative:
  "r \<le> 0 \<Longrightarrow> transformPrice rt (JNum (Fin r)) = js ''0.00''"
proof -
  assume "r \<le> 0"
  then have "math_max0 (Fin r) = Fin 0"
    by (simp add: max_def)
  moreover have "\<lfloor>1 / 2 :: rat\<rfloor> = 0"
    by (simp add: floor_eq_iff)
  ultimately have "over100 (math_round (times100 (math_max0 (Fin r)))) = Fin 0"
    by (simp add: fl_def)
  moreover have "toFixed2 rt (Fin 0) = js ''0.00''"
    by (simp add: toFixed2_def dec.simps js_def floor_eq_iff)
  ultimately show ?thesis
    by (simp add: transformPrice_def)
qed

text \<open>
  The parts of C3 that hold, continued: a finite result below \<open>10^21\<close> is printed as
  digits, a point and two digits; and the claim's example \<open>"$1,234.567"\<close> gives
  \<open>"1234.57"\<close> in double arithmetic.
\<close>

lemma dec_digits: "dec n \<noteq> [] \<and> list_all is_digit (dec n)"
proof (induction n rule: dec.induct)
  case (1 n)
  show ?case
  proof (cases "n < 10")
    case True
    then show ?thesis by (subst (1 2) dec.simps) (simp add: is_digit_def)
  next
    case False
    with 1 have "dec (n div 10) \<noteq> [] \<and> list_all is_digit (dec (n div 10))" by simp
    moreover have "is_digit (48 + n mod 10)" by (simp add: is_digit_def)
    ultimately show ?thesis using False by (subst (1 2) dec.simps) simp
  qed
qed

lemma two_decimals_shape:
  assumes "a \<noteq> []" and "list_all is_digit a" and "list_all is_digit b" and "length b = 2"
  shows "two_decimals (a @ js ''.'' @ b)"
  using assms by (cases a) (simp_all add: two_decimals_def js_def nth_append)

lemma toFixed2_two_decimals:
  assumes "0 \<le> r" and "r < 10 ^ 21"
  shows "two_decimals (toFixed2 rt (Fin r))"
proof -
  define m where "m = dec (nat \<lfloor>r * 100 + 1 / 2\<rfloor>)"
  define m' where "m' = (if length m \<le> 2 then replicate (3 - length m) 48 @ m else m)"
  have m: "m \<noteq> []" "list_all is_digit m"
    using dec_digits by (simp_all add: m_def)
  have m': "3 \<le> length m'" "list_all is_digit m'"
    using m by (auto simp: m'_def is_digit_def list_all_iff)
  have "toFixed2 rt (Fin r) = take (length m' - 2) m' @ js ''.'' @ drop (length m' - 2) m'"
    using assms by (simp add: toFixed2_def Let_def m_def m'_def abs_if)
  moreover have "two_decimals (take (length m' - 2) m' @ js ''.'' @ drop (length m' - 2) m')"
    using m' by (intro two_decimals_shape) (auto simp: list_all_iff dest: in_set_takeD in_set_dropD)
  ultimately show ?thesis by simp
qed

lemma toFixed2_eval:
  assumes "0 \<le> r" and "r < 10 ^ 21" and "\<lfloor>r * 100 + 1 / 2\<rfloor> = int k" and "dec k = ds"
    and "2 < length ds"
  shows "toFixed2 rt (Fin r) = take (length ds - 2) ds @ js ''.'' @ drop (length ds - 2) ds"
  using assms by (simp add: toFixed2_def Let_def abs_if)

lemma not_two_decimals_Infinity: "\<not> two_decimals (js ''Infinity'')"
  by (simp add: two_decimals_def js_def)

lemma transformPrice_string:
  assumes "matches_decimal (trim (filter (\<lambda>c. \<not> is_stripped c) p))"
    and "parseFloat (trim (filter (\<lambda>c. \<not> is_stripped c) p)) = x" and "x \<noteq> NaN"
  shows "transformPrice rt (JStr p) = toFixed2 rt (over100 (math_round (times100 (math_max0 x))))"
  using assms by (cases x) (simp_all add: transformPrice_def Let_def)

lemma example_1234_567: "transformPrice rt (JStr (js ''$1,234.567'')) = js ''1234.57''"
proof -
  have c: "trim (filter (\<lambda>c. \<not> is_stripped c) (js ''$1,234.567'')) = js ''1234.567''"
    by (simp add: js_def is_stripped_def is_space_def trim_def)
  have m: "matches_decimal (js ''1234.567'')"
    by (simp add: matches_decimal_def js_def is_digit_def)
  have "fl (1234567 / 1000) = Fin (of_int 5429683087074132 * pow2 (- 42))"
    by (rule fl_eqI [where e = 10]) (simp_all add: pow2_def)
  then have p: "parseFloat (js ''1234.567'') = Fin (5429683087074132 / 2 ^ 42)"
    by (simp add: parseFloat_def js_def is_digit_def digits_value_def pow2_def)
  have "fl (5429683087074132 / 2 ^ 42 * 100) = Fin (of_int 8483879823553331 * pow2 (- 36))"
    by (rule fl_eqI [where e = 16]) (simp_all add: pow2_def)
  then have t: "times100 (Fin (5429683087074132 / 2 ^ 42)) = Fin (8483879823553331 / 2 ^ 36)"
    by (simp add: pow2_def)
  have r: "math_round (Fin (8483879823553331 / 2 ^ 36)) = Fin 123457"
    by (simp add: floor_eq_iff)
  have "fl (123457 / 100) = Fin (of_int 5429696281213665 * pow2 (- 42))"
    by (rule fl_eqI [where e = 10]) (simp_all add: pow2_def)
  then have o: "over100 (Fin 123457) = Fin (5429696281213665 / 2 ^ 42)"
    by (simp add: pow2_def)
  have d: "dec 123457 = js ''123457''"
    by (simp add: dec.simps js_def)
  have n: "\<lfloor>(5429696281213665 / 2 ^ 42 :: rat) * 100 + 1 / 2\<rfloor> = int 123457"
    by (simp add: floor_eq_iff)
  have f: "toFixed2 rt (Fin (5429696281213665 / 2 ^ 42)) = js ''1234.57''"
    using toFixed2_eval [OF _ _ n d, of rt] by (simp add: js_def)
  have x: "math_max0 (Fin (5429683087074132 / 2 ^ 42)) = Fin (5429683087074132 / 2 ^ 42)"
    by simp
  have "transformPrice rt (JStr (js ''$1,234.567''))
      = toFixed2 rt (over100 (math_round (times100 (math_max0 (Fin (5429683087074132 / 2 ^ 42))))))"
    by (rule transformPrice_string) (simp_all only: c m p jsnum.distinct not_False_eq_True)
  then show ?thesis
    by (simp only: x t r o f)
qed

lemma digits_value_huge: "digits_value huge_price = 10 ^ 309"
proof -
  have "foldl (\<lambda>acc c. 10 * acc + (c - 48)) a (replicate n 48) = a * 10 ^ n" for a n :: nat
    by (induction n arbitrary: a) simp_all
  then show ?thesis by (simp add: digits_value_def huge_price_def)
qed

lemma example_huge: "transformPrice rt (JStr huge_price) = js ''Infinity''"
proof -
  have s: "filter (\<lambda>c. \<not> is_stripped c) huge_price = huge_price"
    by (simp add: huge_price_def is_stripped_def is_space_def)
  have t: "trim huge_price = huge_price"
    by (simp add: trim_def huge_price_def is_space_def)
  have dg: "takeWhile is_digit huge_price = huge_price" "dropWhile is_digit huge_price = []"
    by (simp_all add: huge_price_def is_digit_def)
  have m: "matches_decimal huge_price"
    by (simp add: matches_decimal_def dg) (simp add: huge_price_def)
  have "fl (10 ^ 309) = PInf"
    by (rule fl_overflow) (simp add: pow2_def)
  then have p: "parseFloat huge_price = PInf"
    by (simp add: parseFloat_def dg digits_value_huge) (simp add: huge_price_def digits_value_def)
  show ?thesis
    by (simp add: transformPrice_def s t m p toFixed2_def Let_def)
qed

text \<open>
  C3 (code bug). The comment above the last line of \<open>transformPrice\<close> says "Always return
  with exactly 2 decimal places". A price of \<open>Infinity\<close> (the JSON number \<open>1e999\<close> parses to
  it) is a number and not NaN; clamping, scaling and rounding leave it infinite, and
  \<open>Infinity.toFixed(2)\<close> is \<open>"Infinity"\<close>. A string of 310 digits matches the pattern,
  \<open>parseFloat\<close> overflows to \<open>Infinity\<close>, and the result is the same. \<open>"Infinity"\<close> is
  not a number with two decimal digits.
\<close>

theorem C3_infinite_price_not_two_decimals:
  "transformPrice rt (JNum PInf) = js ''Infinity''
   \<and> transformPrice rt (JStr huge_price) = js ''Infinity''
   \<and> \<not> two_decimals (js ''Infinity'')"
  using example_huge [of rt] not_two_decimals_Infinity
  by (simp add: transformPrice_def toFixed2_def)

text \<open>C3 (witness). The same prices in the production runtime.\<close>

theorem C3_infinite_price_not_two_decimals_witness:
  "transformPrice production_env (JNum PInf) = js ''Infinity''
   \<and> transformPrice production_env (JStr huge_price) = js ''Infinity''"
  using C3_infinite_price_not_two_decimals [of production_env] by simp

text \<open>
  The part of C9 that holds: in an accepted record every key other than the six canonical
  ones and \<open>__proto__\<close> is an own property of the output with the input's value, and the
  six canonical fields keep the values the normalizer gave them.
\<close>

lemma hasOwnProperty_map_of: "hasOwnProperty t key \<longleftrightarrow> map_of (own t) key \<noteq> None"
  by (simp add: hasOwnProperty_def map_of_eq_None_iff)

lemma copy_fields_own:
  "copy_fields ps t = Inr t' \<Longrightarrow>
     map_of (own t') k =
       (case map_of (own t) k of
          Some v \<Rightarrow> Some v
        | None \<Rightarrow> if k = js ''__proto__'' then None else map_of ps k)"
proof (induction ps arbitrary: t)
  case Nil
  then show ?case by (auto split: option.splits)
next
  case (Cons kv ps)
  obtain key v where kv: "kv = (key, v)" by (cases kv)
  from Cons.prems kv have intact: "method_intact t"
    by (auto split: if_splits)
  show ?case
  proof (cases "hasOwnProperty t key")
    case True
    with Cons.prems kv intact have "copy_fields ps t = Inr t'" by simp
    from Cons.IH [OF this] True kv show ?thesis
      by (auto simp: hasOwnProperty_map_of split: option.splits)
  next
    case False
    with Cons.prems kv intact have c: "copy_fields ps (assign t key v) = Inr t'" by simp
    show ?thesis
    proof (cases "key = js ''__proto__''")
      case True
      then have "own (assign t key v) = own t"
        by (simp add: assign_def split: jsval.splits)
      with Cons.IH [OF c] True kv show ?thesis
        by (auto split: option.splits)
    next
      case nproto: False
      then have "own (assign t key v) = own t @ [(key, v)]"
        by (simp add: assign_def)
      with Cons.IH [OF c] False nproto kv show ?thesis
        by (auto simp: hasOwnProperty_map_of map_add_def split: option.splits)
    qed
  qed
qed

lemma base_object_keys: "map fst (own (base_object rt ps)) = canonical_keys"
  by (simp add: base_object_def canonical_keys_def)

lemma unknown_fields_survive:
  assumes "transformProductResponse rt (JObj ps) = Inr t"
  shows "k \<notin> set canonical_keys \<Longrightarrow> k \<noteq> js ''__proto__'' \<Longrightarrow> map_of (own t) k = map_of ps k"
    and "k \<in> set canonical_keys \<Longrightarrow> map_of (own t) k = map_of (own (base_object rt ps)) k"
proof -
  from assms have c: "copy_fields ps (base_object rt ps) = Inr t" by simp
  have d: "map_of (own (base_object rt ps)) k \<noteq> None \<longleftrightarrow> k \<in> set canonical_keys"
    using base_object_keys [of rt ps] by (simp add: map_of_eq_None_iff) (metis list.set_map)
  show "k \<notin> set canonical_keys \<Longrightarrow> k \<noteq> js ''__proto__'' \<Longrightarrow> map_of (own t) k = map_of ps k"
    using copy_fields_own [OF c, of k] d by (auto split: option.splits)
  show "k \<in> set canonical_keys \<Longrightarrow> map_of (own t) k = map_of (own (base_object rt ps)) k"
    using copy_fields_own [OF c, of k] d by (auto split: option.splits)
qed

text \<open>
  C9 (code bug). The comment in \<open>transformProductResponse\<close> says "Preserve all additional
  fields from the input data". For the record \<open>{"id": "1", "__proto__": 5}\<close> (as
  \<open>JSON.parse\<close> builds it, with \<open>__proto__\<close> an own property) the assignment
  \<open>transformed["__proto__"] = 5\<close> reaches the accessor of \<open>Object.prototype\<close>, which
  ignores a value that is neither an object nor \<open>null\<close>: the record is accepted, and the
  output holds the six canonical fields and nothing else.
\<close>

theorem C9_proto_key_not_copied:
  "transformProductResponse rt (JObj [(js ''id'', JStr (js ''1'')), (js ''__proto__'', JNum (Fin 5))])
     = Inr \<lparr>own = [(js ''id'', JStr (js ''1'')),
                   (js ''title'', JStr (js ''Untitled Product'')),
                   (js ''description'', JStr (js ''No description available'')),
                   (js ''price'', JStr (js ''0.00'')),
                   (js ''image'', JNull),
                   (js ''category'', JStr (js ''Uncategorized''))],
            prototype = ObjectPrototype\<rparr>"
  by (simp add: base_object_def field_or_def get_prop_def transformPrice_def method_intact_def
      hasOwnProperty_def assign_def js_inj)

text \<open>C9 (witness). In the production runtime the output has no own key \<open>__proto__\<close>.\<close>

theorem C9_proto_key_not_copied_witness:
  "map fst (own (projr (transformProductResponse production_env
      (JObj [(js ''id'', JStr (js ''1'')), (js ''__proto__'', JNum (Fin 5))]))))
   = [js ''id'', js ''title'', js ''description'', js ''price'', js ''image'', js ''category'']"
  using C9_proto_key_not_copied [of production_env] by simp

section \<open>Claims about \<open>getProducts\<close>\<close>

lemma transform_each_eq:
  "transform_each rt index items (ps, es) = (ps @ successes rt index items, es @ failures rt index items)"
  by (induction items arbitrary: index ps es) (auto split: sum.splits)

lemma length_successes_failures:
  "length (successes rt index items) + length (failures rt index items) = length items"
  by (induction items arbitrary: index) (auto split: sum.splits)

lemma failures_enumerate:
  "failures rt index items =
     map (\<lambda>(i, x). error_entry rt i x (projl (transform_item rt i x)))
       (filter (\<lambda>(i, x). isl (transform_item rt i x)) (enumerate index items))"
  by (induction items arbitrary: index) (auto split: sum.splits)

lemma successes_enumerate:
  "successes rt index items =
     map (\<lambda>(i, x). projr (transform_item rt i x))
       (filter (\<lambda>(i, x). \<not> isl (transform_item rt i x)) (enumerate index items))"
  by (induction items arbitrary: index) (auto split: sum.splits)

lemma enumerate_nth: "enumerate 0 xs = map (\<lambda>i. (i, xs ! i)) [0..<length xs]"
  by (rule nth_equalityI) (simp_all add: nth_enumerate_eq)

lemma failures_failing:
  "failures rt 0 items =
     map (\<lambda>i. error_entry rt i (items ! i) (projl (transform_item rt i (items ! i))))
       (failing rt items)"
  by (simp add: failures_enumerate enumerate_nth filter_map comp_def failing_def)

lemma successes_not_failing:
  "successes rt 0 items =
     map (\<lambda>i. projr (transform_item rt i (items ! i)))
       (filter (\<lambda>i. \<not> isl (transform_item rt i (items ! i))) [0..<length items])"
  by (simp add: successes_enumerate enumerate_nth filter_map comp_def)

lemma failures_index: "map ie_index (failures rt 0 items) = failing rt items"
  by (simp add: failures_failing error_entry_def comp_def)

lemma failures_productId:
  "map ie_productId (failures rt 0 items) = map (\<lambda>i. item_id (items ! i)) (failing rt items)"
  by (simp add: failures_failing error_entry_def comp_def)

lemma getProducts_array:
  assumes "filter_params filters = Inr params"
    and "api_get net (case lo_validateStatus opts of None \<Rightarrow> DEFAULT_validateStatus | Some f \<Rightarrow> f)
           DEFAULT_timeout w = (Inr r, w1)"
    and "validateResponse rt True (case lo_allowEmpty opts of None \<Rightarrow> True | Some b \<Rightarrow> b) r
           = Inr (JArr items)"
  shows "getProducts rt net filters opts w =
     (if NODE_ENV rt = Some (js ''test'') then (Inr (Bare (successes rt 0 items)), w1)
      else (Inr (Standard
              \<lparr>products = successes rt 0 items,
               errors = (if failures rt 0 items = [] then None else Some (failures rt 0 items)),
               metadata = \<lparr>md_total = length items, md_transformed = length (successes rt 0 items),
                           md_failed = length (failures rt 0 items), md_filters = params\<rparr>\<rparr>), w1))"
  using assms by (simp add: getProducts_def transform_each_eq)

lemma validate_array:
  assumes "data r = Some (JArr items)" and "allowEmpty \<or> items \<noteq> []"
  shows "validateResponse rt True allowEmpty r = Inr (JArr items)"
  using assms by (auto simp: validateResponse_def is_array_def)

text \<open>
  C7 (counterexample). With \<open>NODE_ENV\<close> equal to \<open>test\<close> the payload
  \<open>[null, {id: "1"}, 3]\<close>, of which two items fail normalization, comes back as the bare
  array of the one normalized record: no per-item error entry is returned. And with
  \<open>allowEmpty: false\<close> the empty payload (K = 0, M = 0) is refused by the validator: the
  call raises \<open>UNKNOWN_ERROR\<close> and returns nothing.
\<close>

theorem C7_as_stated_counterexample:
  "getProducts test_env (always listing) (JObj []) no_options idle =
     (Inr (Bare [\<lparr>own = [(js ''id'', JStr (js ''1'')),
                        (js ''title'', JStr (js ''Untitled Product'')),
                        (js ''description'', JStr (js ''No description available'')),
                        (js ''price'', JStr (js ''0.00'')),
                        (js ''image'', JNull),
                        (js ''category'', JStr (js ''Uncategorized''))],
                 prototype = ObjectPrototype\<rparr>]),
      \<lparr>sent = 1, trace = [NetRequest]\<rparr>)
   \<and> getProducts production_env (always empty_listing) (JObj []) require_items idle =
     (Inl unknown_error, \<lparr>sent = 1, trace = [NetRequest]\<rparr>)"
proof -
  have "getProducts test_env (always listing) (JObj []) no_options idle =
     (Inr (Bare [\<lparr>own = [(js ''id'', JStr (js ''1'')),
                        (js ''title'', JStr (js ''Untitled Product'')),
                        (js ''description'', JStr (js ''No description available'')),
                        (js ''price'', JStr (js ''0.00'')),
                        (js ''image'', JNull),
                        (js ''category'', JStr (js ''Uncategorized''))],
                 prototype = ObjectPrototype\<rparr>]),
      \<lparr>sent = 1, trace = [NetRequest]\<rparr>)"
    by (simp add: getProducts_def test_env_def always_def listing_def no_options_def idle_def
        filter_params_def api_get_def api_dispatch.simps DEFAULT_validateStatus_def
        response_fulfilled_def validateResponse_def is_array_def transform_item_def is_object_def
        base_object_def field_or_def get_prop_def transformPrice_def js_inj hasOwnProperty_def
        method_intact_def assign_def)
  moreover have "getProducts production_env (always empty_listing) (JObj []) require_items idle =
     (Inl unknown_error, \<lparr>sent = 1, trace = [NetRequest]\<rparr>)"
    by (simp add: getProducts_def production_env_def always_def empty_listing_def
        require_items_def idle_def filter_params_def api_get_def api_dispatch.simps
        DEFAULT_validateStatus_def response_fulfilled_def validateResponse_def is_array_def
        new_APIError_def handleApiError_def unknown_error_def signal_aborted_def js_inj)
  ultimately show ?thesis by simp
qed

text \<open>
  C7 (amended). Outside the test environment, for a collection fetch with well-formed
  filters to which the transport delivers a response whose payload is a sequence of K
  items (not the empty sequence when the caller passes \<open>allowEmpty: false\<close>, which is
  refused as a whole), of which M fail normalization: \<open>getProducts\<close> returns a result with
  exactly K - M normalized records (those of the other items, in order) and M per-item
  error entries, \<open>errors\<close> being \<open>null\<close> when M = 0 and the list of the M entries
  otherwise; the entries carry the original indices of the failing items, in order, and
  their original ids; the failures never abort the fetch.
\<close>

theorem C7_partial_failure:
  assumes "NODE_ENV rt \<noteq> Some (js ''test'')"
    and "filter_params filters = Inr params"
    and "api_get net (case lo_validateStatus opts of None \<Rightarrow> DEFAULT_validateStatus | Some f \<Rightarrow> f)
           DEFAULT_timeout w = (Inr r, w1)"
    and "data r = Some (JArr items)"
    and "lo_allowEmpty opts = Some False \<longrightarrow> items \<noteq> []"
  shows "\<exists>rd. getProducts rt net filters opts w = (Inr (Standard rd), w1)
     \<and> length (products rd) = length items - length (failing rt items)
     \<and> errors rd = (if failing rt items = [] then None else Some (item_errors rd))
     \<and> length (item_errors rd) = length (failing rt items)
     \<and> map ie_index (item_errors rd) = failing rt items
     \<and> map ie_productId (item_errors rd) = map (\<lambda>i. item_id (items ! i)) (failing rt items)
     \<and> products rd = map (\<lambda>i. projr (transform_item rt i (items ! i)))
                        (filter (\<lambda>i. i \<notin> set (failing rt items)) [0..<length items])"
proof -
  let ?rd = "\<lparr>products = successes rt 0 items,
               errors = (if failures rt 0 items = [] then None else Some (failures rt 0 items)),
               metadata = \<lparr>md_total = length items, md_transformed = length (successes rt 0 items),
                           md_failed = length (failures rt 0 items), md_filters = params\<rparr>\<rparr>"
  have v: "validateResponse rt True (case lo_allowEmpty opts of None \<Rightarrow> True | Some b \<Rightarrow> b) r
           = Inr (JArr items)"
    using assms(4,5) by (intro validate_array) (auto split: option.splits)
  have g: "getProducts rt net filters opts w = (Inr (Standard ?rd), w1)"
    using getProducts_array [OF assms(2,3) v] assms(1) by simp
  have e: "item_errors ?rd = failures rt 0 items"
    by (simp add: item_errors_def)
  have i: "map ie_index (failures rt 0 items) = failing rt items"
    by (rule failures_index)
  have p: "map ie_productId (failures rt 0 items) = map (\<lambda>i. item_id (items ! i)) (failing rt items)"
    by (rule failures_productId)
  have l: "length (failures rt 0 items) = length (failing rt items)"
    using i by (metis length_map)
  have z: "failures rt 0 items = [] \<longleftrightarrow> failing rt items = []"
    using l by (metis length_0_conv)
  have o: "errors ?rd = (if failing rt items = [] then None else Some (item_errors ?rd))"
    using z by (simp add: item_errors_def)
  have n: "length (successes rt 0 items) = length items - length (failing rt items)"
    using length_successes_failures [of rt 0 items] l by simp
  have s: "successes rt 0 items = map (\<lambda>i. projr (transform_item rt i (items ! i)))
                        (filter (\<lambda>i. i \<notin> set (failing rt items)) [0..<length items])"
  proof -
    have "filter (\<lambda>i. i \<notin> set (failing rt items)) [0..<length items]
        = filter (\<lambda>j. \<not> isl (transform_item rt j (items ! j))) [0..<length items]"
      by (rule filter_cong) (auto simp: failing_def)
    then show ?thesis
      by (simp add: successes_not_failing)
  qed
  show ?thesis
  proof (intro exI [of _ ?rd] conjI)
    show "getProducts rt net filters opts w = (Inr (Standard ?rd), w1)" by (rule g)
    show "length (products ?rd) = length items - length (failing rt items)" using n by simp
    show "errors ?rd = (if failing rt items = [] then None else Some (item_errors ?rd))"
      by (rule o)
    show "length (item_errors ?rd) = length (failing rt items)" using e l by simp
    show "map ie_index (item_errors ?rd) = failing rt items" using e i by simp
    show "map ie_productId (item_errors ?rd)
        = map (\<lambda>i. item_id (items ! i)) (failing rt items)" using e p by simp
    show "products ?rd = map (\<lambda>i. projr (transform_item rt i (items ! i)))
                        (filter (\<lambda>i. i \<notin> set (failing rt items)) [0..<length items])"
      using s by simp
  qed
qed

text \<open>
  C7 (witness). In production the payload \<open>[null, {id: "1"}, 3]\<close> gives one record and
  a list of error entries for the indices 0 and 2; the payload \<open>[{id: "7"}]\<close> gives one
  record and \<open>errors\<close> equal to \<open>null\<close>.
\<close>

theorem C7_partial_failure_witness:
  "(\<exists>rd. getProducts production_env (always listing) (JObj []) no_options idle
          = (Inr (Standard rd), \<lparr>sent = 1, trace = [NetRequest]\<rparr>)
      \<and> length (products rd) = 1
      \<and> errors rd = Some (item_errors rd)
      \<and> map ie_index (item_errors rd) = [0, 2]
      \<and> map ie_productId (item_errors rd) = [JUndefined, JUndefined])
   \<and> (\<exists>rd. getProducts production_env (always clean_listing) (JObj []) no_options idle
          = (Inr (Standard rd), \<lparr>sent = 1, trace = [NetRequest]\<rparr>)
      \<and> length (products rd) = 1
      \<and> errors rd = None)"
proof -
  have a: "NODE_ENV production_env \<noteq> Some (js ''test'')"
    by (simp add: production_env_def js_inj)
  have b: "filter_params (JObj []) = Inr []"
    by (simp add: filter_params_def)
  have c: "api_get (always listing)
             (case lo_validateStatus no_options of None \<Rightarrow> DEFAULT_validateStatus | Some f \<Rightarrow> f)
             DEFAULT_timeout idle = (Inr listing, \<lparr>sent = 1, trace = [NetRequest]\<rparr>)"
    by (simp add: api_get_def api_dispatch.simps always_def listing_def no_options_def idle_def
        DEFAULT_validateStatus_def response_fulfilled_def)
  have d: "data listing = Some (JArr [JNull, JObj [(js ''id'', JStr (js ''1''))], JNum (Fin 3)])"
    by (simp add: listing_def)
  have e: "lo_allowEmpty no_options = Some False \<longrightarrow>
             [JNull, JObj [(js ''id'', JStr (js ''1''))], JNum (Fin 3)] \<noteq> []"
    by simp
  have f: "failing production_env [JNull, JObj [(js ''id'', JStr (js ''1''))], JNum (Fin 3)] = [0, 2]"
    by (simp add: failing_def transform_item_def is_object_def upt_rec nth_Cons'
        base_object_def method_intact_def js_inj)
  have c': "api_get (always clean_listing)
             (case lo_validateStatus no_options of None \<Rightarrow> DEFAULT_validateStatus | Some f \<Rightarrow> f)
             DEFAULT_timeout idle = (Inr clean_listing, \<lparr>sent = 1, trace = [NetRequest]\<rparr>)"
    by (simp add: api_get_def api_dispatch.simps always_def clean_listing_def no_options_def
        idle_def DEFAULT_validateStatus_def response_fulfilled_def)
  have d': "data clean_listing = Some (JArr [JObj [(js ''id'', JStr (js ''7''))]])"
    by (simp add: clean_listing_def)
  have e': "lo_allowEmpty no_options = Some False \<longrightarrow> [JObj [(js ''id'', JStr (js ''7''))]] \<noteq> []"
    by simp
  have f': "failing production_env [JObj [(js ''id'', JStr (js ''7''))]] = []"
    by (simp add: failing_def transform_item_def is_object_def base_object_def
        method_intact_def hasOwnProperty_def js_inj)
  have first: "\<exists>rd. getProducts production_env (always listing) (JObj []) no_options idle
          = (Inr (Standard rd), \<lparr>sent = 1, trace = [NetRequest]\<rparr>)
      \<and> length (products rd) = 1
      \<and> errors rd = Some (item_errors rd)
      \<and> map ie_index (item_errors rd) = [0, 2]
      \<and> map ie_productId (item_errors rd) = [JUndefined, JUndefined]"
    using C7_partial_failure [OF a b c d e] f by (auto simp: item_id_def)
  have second: "\<exists>rd. getProducts production_env (always clean_listing) (JObj []) no_options idle
          = (Inr (Standard rd), \<lparr>sent = 1, trace = [NetRequest]\<rparr>)
      \<and> length (products rd) = 1
      \<and> errors rd = None"
    using C7_partial_failure [OF a b c' d' e'] f' by auto
  from first second show ?thesis by simp
qed



section \<open>Claims about the request lifecycle coordinator\<close>

lemma error_text_nonempty: "error_text err \<noteq> []"
  by (auto simp: error_text_def js_Nil split: option.splits)

lemma safeSetState_stale:
  "tok \<noteq> requestIdRef c \<Longrightarrow> safeSetState c tok f = c"
  by (simp add: safeSetState_def)

lemma safeSetState_unmounted:
  "\<not> mountedRef c \<Longrightarrow> safeSetState c tok f = c"
  by (simp add: safeSetState_def)

lemma safeSetState_fields [simp]:
  "requestIdRef (safeSetState c tok f) = requestIdRef c"
  "mountedRef (safeSetState c tok f) = mountedRef c"
  "productId (safeSetState c tok f) = productId c"
  "cacheTimeout (safeSetState c tok f) = cacheTimeout c"
  "inflight (safeSetState c tok f) = inflight c"
  by (simp_all add: safeSetState_def)

lemma on_rejected_fields [simp]:
  "requestIdRef (on_rejected tok err c) = requestIdRef c"
  "mountedRef (on_rejected tok err c) = mountedRef c"
  "productId (on_rejected tok err c) = productId c"
  "cacheTimeout (on_rejected tok err c) = cacheTimeout c"
  "inflight (on_rejected tok err c) = inflight c"
  by (simp_all add: on_rejected_def)

lemma on_resolved_fields [simp]:
  "requestIdRef (on_resolved tok now pd c) = requestIdRef c"
  "mountedRef (on_resolved tok now pd c) = mountedRef c"
  "productId (on_resolved tok now pd c) = productId c"
  "cacheTimeout (on_resolved tok now pd c) = cacheTimeout c"
  "inflight (on_resolved tok now pd c) = inflight c"
  by (simp_all add: on_resolved_def split: option.splits)

lemma on_rejected_dropped:
  "tok \<noteq> requestIdRef c \<or> \<not> mountedRef c \<or> is_cancellation err \<Longrightarrow> state (on_rejected tok err c) = state c"
  by (auto simp: on_rejected_def safeSetState_def)

lemma on_resolved_dropped:
  "tok \<noteq> requestIdRef c \<or> \<not> mountedRef c \<Longrightarrow> state (on_resolved tok now pd c) = state c"
  by (auto simp: on_resolved_def on_rejected_def safeSetState_def split: option.splits)

lemma settle_call_fields [simp]:
  assumes "\<And>n d. requestIdRef (k n d) = requestIdRef d" "\<And>n d. mountedRef (k n d) = mountedRef d"
    "\<And>n d. productId (k n d) = productId d" "\<And>n d. cacheTimeout (k n d) = cacheTimeout d"
  shows "requestIdRef (settle_call tok k c) = requestIdRef c"
    "mountedRef (settle_call tok k c) = mountedRef c"
    "productId (settle_call tok k c) = productId c"
    "cacheTimeout (settle_call tok k c) = cacheTimeout c"
  using assms by (auto simp: settle_call_def split: option.splits)

lemma settle_call_state:
  assumes "\<And>n d. state d = state c \<Longrightarrow> requestIdRef d = requestIdRef c \<Longrightarrow> mountedRef d = mountedRef c \<Longrightarrow> state (k n d) = state c"
  shows "state (settle_call tok k c) = state c"
  using assms by (auto simp: settle_call_def split: option.splits)

lemma stale_resolve:
  "tok \<noteq> requestIdRef c \<or> \<not> mountedRef c \<Longrightarrow> state (step be (Resolve tok) c) = state c"
  by (auto intro!: settle_call_state simp: on_resolved_dropped)

lemma stale_reject:
  "tok \<noteq> requestIdRef c \<or> \<not> mountedRef c \<or> is_cancellation err \<Longrightarrow> state (step be (Reject tok err) c) = state c"
  by (auto intro!: settle_call_state simp: on_rejected_dropped)

lemma fetchProduct_fields [simp]:
  "requestIdRef (fetchProduct now c) = requestIdRef c + 1"
  "mountedRef (fetchProduct now c) = mountedRef c"
  "productId (fetchProduct now c) = productId c"
  "cacheTimeout (fetchProduct now c) = cacheTimeout c"
  by (simp_all add: fetchProduct_def Let_def)

lemma fetchProduct_inflight:
  "inflight (fetchProduct now c) =
     (if productId c = [] then inflight c else inflight c @ [(requestIdRef c + 1, productId c, now)])"
  by (simp add: fetchProduct_def Let_def)

lemma fetchProduct_state:
  "mountedRef c \<Longrightarrow> state (fetchProduct now c) =
     (if productId c = [] then (state c)\<lparr>loading := False, error := Some (js ''Product ID is required'')\<rparr>
      else (state c)\<lparr>loading := True, error := None\<rparr>)"
  by (simp add: fetchProduct_def Let_def safeSetState_def)

lemma fetchProduct_not_success: "mountedRef c \<Longrightarrow> \<not> success (state (fetchProduct now c))"
  by (simp add: fetchProduct_state success_def truthy_str_def js_Nil)

lemma fetchProduct_product: "product (state (fetchProduct now c)) = product (state c)"
  by (simp add: fetchProduct_def Let_def safeSetState_def)

lemma step_fields [simp]:
  "mountedRef (step be e c) = (mountedRef c \<and> e \<noteq> Unmount)"
  "cacheTimeout (step be e c) = cacheTimeout c"
  by (cases e; simp)+

lemma step_requestId_mono: "requestIdRef c \<le> requestIdRef (step be e c)"
  by (cases e) simp_all

lemma run_requestId_mono: "requestIdRef c \<le> requestIdRef (run be c evs)"
proof (induction evs arbitrary: c)
  case Nil
  then show ?case by (simp add: run_def)
next
  case (Cons e evs)
  have "requestIdRef c \<le> requestIdRef (step be e c)" by (rule step_requestId_mono)
  also have "\<dots> \<le> requestIdRef (run be (step be e c) evs)" by (rule Cons.IH)
  finally show ?case by (simp add: run_def)
qed

lemma unmounted_step: "\<not> mountedRef c \<Longrightarrow> state (step be e c) = state c"
  by (cases e) (simp_all add: stale_resolve stale_reject del: step.simps(2,3))

lemma unmounted_run: "\<not> mountedRef c \<Longrightarrow> state (run be c evs) = state c"
proof (induction evs arbitrary: c)
  case Nil
  then show ?case by (simp add: run_def)
next
  case (Cons e evs)
  then have "state (run be (step be e c) evs) = state (step be e c)" by simp
  with Cons.prems show ?case by (simp add: run_def unmounted_step)
qed

lemma tokens_ok_fetch: "tokens_ok c \<Longrightarrow> tokens_ok (fetchProduct now c)"
  by (fastforce simp: tokens_ok_def fetchProduct_inflight)

lemma tokens_ok_change: "tokens_ok c \<Longrightarrow> tokens_ok (fetchProduct now (c\<lparr>productId := pid\<rparr>))"
  by (fastforce simp: tokens_ok_def fetchProduct_inflight)

lemma settle_call_inflight:
  assumes "\<And>n d. inflight (k n d) = inflight d"
  shows "set (inflight (settle_call tok k c)) \<subseteq> set (inflight c)"
  using assms by (auto simp: settle_call_def split: option.splits)

lemma tokens_ok_settle:
  assumes "tokens_ok c" and "\<And>n d. inflight (k n d) = inflight d"
    and "\<And>n d. requestIdRef (k n d) = requestIdRef d" "\<And>n d. mountedRef (k n d) = mountedRef d"
    "\<And>n d. productId (k n d) = productId d" "\<And>n d. cacheTimeout (k n d) = cacheTimeout d"
  shows "tokens_ok (settle_call tok k c)"
proof -
  have "set (inflight (settle_call tok k c)) \<subseteq> set (inflight c)"
    using assms(2) by (rule settle_call_inflight)
  moreover have "requestIdRef (settle_call tok k c) = requestIdRef c"
    "productId (settle_call tok k c) = productId c"
    using assms(3-6) by simp_all
  ultimately show ?thesis
    using assms(1) unfolding tokens_ok_def by auto
qed

lemma call_productId_current:
  assumes "tokens_ok c" and "find (\<lambda>(t, p, n). t = requestIdRef c) (inflight c) = Some (t, p, n)"
  shows "p = productId c"
proof -
  from assms(2) have "(t, p, n) \<in> set (inflight c)" and "t = requestIdRef c"
    by (auto simp: find_Some_iff in_set_conv_nth)
  with assms(1) show ?thesis
    by (auto simp: tokens_ok_def)
qed

lemma resolve_state:
  assumes "tokens_ok c" 
  shows "state (step be (Resolve tok) c) = state c
     \<or> (tok = requestIdRef c \<and> mountedRef c \<and>
        (case be (productId c) of
           None \<Rightarrow> state (step be (Resolve tok) c) =
                     (state c)\<lparr>loading := False, error := Some (js ''Product not found''),
                                retryCount := retryCount (state c) + 1\<rparr>
         | Some pd \<Rightarrow> product (state (step be (Resolve tok) c)) = Some pd))"
proof (cases "tok = requestIdRef c \<and> mountedRef c")
  case False
  then show ?thesis using stale_resolve [of tok c be] by blast
next
  case True
  show ?thesis
  proof (cases "find (\<lambda>(t, p, n). t = tok) (inflight c)")
    case None
    then show ?thesis by (simp add: settle_call_def)
  next
    case (Some a)
    obtain t p n where a: "a = (t, p, n)" by (cases a)
    with Some True assms have p: "p = productId c"
      using call_productId_current by blast
    with Some a True show ?thesis
      by (auto simp: settle_call_def call_productId_def on_resolved_def on_rejected_def
          safeSetState_def is_cancellation_def error_text_def js_inj js_Nil split: option.splits)
  qed
qed

lemma reject_state:
  "state (step be (Reject tok err) c) = state c
     \<or> state (step be (Reject tok err) c) =
          (state c)\<lparr>loading := False, error := Some (error_text err),
                     retryCount := retryCount (state c) + 1\<rparr>"
  by (auto simp: settle_call_def on_rejected_def safeSetState_def split: option.splits)

lemma not_success_error: "m \<noteq> [] \<Longrightarrow> \<not> success (s\<lparr>loading := False, error := Some m, retryCount := k\<rparr>)"
  by (simp add: success_def truthy_str_def)

lemma shows_current_step:
  assumes "shows_current be c"
  shows "shows_current be (step be e c)"
proof (cases e)
  case (ChangeId pid now)
  with assms show ?thesis
    by (auto simp: shows_current_def tokens_ok_change fetchProduct_not_success)
next
  case (Resolve tok)
  from assms have tk: "tokens_ok c" by (simp add: shows_current_def)
  have tk': "tokens_ok (step be (Resolve tok) c)"
    using tk by (auto intro!: tokens_ok_settle)
  have pid: "productId (step be (Resolve tok) c) = productId c" by simp
  from resolve_state [OF tk, of be tok]
  have "success (state (step be (Resolve tok) c)) \<longrightarrow>
          product (state (step be (Resolve tok) c)) = be (productId c)"
  proof
    assume "state (step be (Resolve tok) c) = state c"
    with assms show ?thesis by (simp add: shows_current_def)
  next
    assume a: "tok = requestIdRef c \<and> mountedRef c \<and>
        (case be (productId c) of
           None \<Rightarrow> state (step be (Resolve tok) c) =
                     (state c)\<lparr>loading := False, error := Some (js ''Product not found''),
                                retryCount := retryCount (state c) + 1\<rparr>
         | Some pd \<Rightarrow> product (state (step be (Resolve tok) c)) = Some pd)"
    show ?thesis
    proof (cases "be (productId c)")
      case None
      with a have st: "state (step be (Resolve tok) c) =
          (state c)\<lparr>loading := False, error := Some (js ''Product not found''),
                     retryCount := retryCount (state c) + 1\<rparr>"
        by (auto simp del: step.simps)
      have "\<not> success ((state c)\<lparr>loading := False, error := Some (js ''Product not found''),
                     retryCount := retryCount (state c) + 1\<rparr>)"
        by (rule not_success_error) (simp add: js_Nil)
      then show ?thesis unfolding st by simp
    next
      case (Some pd)
      with a show ?thesis by (auto simp del: step.simps)
    qed
  qed
  with tk' pid Resolve show ?thesis
    by (simp add: shows_current_def del: step.simps)
next
  case (Reject tok err)
  from assms have tk: "tokens_ok c" by (simp add: shows_current_def)
  have tk': "tokens_ok (step be (Reject tok err) c)"
    using tk by (auto intro!: tokens_ok_settle)
  have pid: "productId (step be (Reject tok err) c) = productId c" by simp
  from reject_state [of be tok err c]
  have "success (state (step be (Reject tok err) c)) \<longrightarrow>
          product (state (step be (Reject tok err) c)) = be (productId c)"
  proof
    assume "state (step be (Reject tok err) c) = state c"
    with assms show ?thesis by (simp add: shows_current_def)
  next
    assume "state (step be (Reject tok err) c) =
          (state c)\<lparr>loading := False, error := Some (error_text err),
                     retryCount := retryCount (state c) + 1\<rparr>"
    then have st: "state (step be (Reject tok err) c) =
          (state c)\<lparr>loading := False, error := Some (error_text err),
                     retryCount := retryCount (state c) + 1\<rparr>" .
    have "\<not> success ((state c)\<lparr>loading := False, error := Some (error_text err),
                     retryCount := retryCount (state c) + 1\<rparr>)"
      by (rule not_success_error) (rule error_text_nonempty)
    then show ?thesis unfolding st by simp
  qed
  with tk' pid Reject show ?thesis
    by (simp add: shows_current_def del: step.simps)
next
  case (RetryTimer now)
  with assms show ?thesis
    by (auto simp: shows_current_def tokens_ok_fetch fetchProduct_not_success)
next
  case (RevalidateTick now)
  with assms show ?thesis
    by (auto simp: shows_current_def tokens_ok_fetch fetchProduct_not_success)
next
  case (ClickRetry now)
  with assms show ?thesis
    by (auto simp: shows_current_def tokens_ok_fetch fetchProduct_not_success)
next
  case Unmount
  with assms show ?thesis
    by (simp add: shows_current_def tokens_ok_def)
qed

lemma shows_current_run: "shows_current be c \<Longrightarrow> shows_current be (run be c evs)"
proof (induction evs arbitrary: c)
  case Nil
  then show ?case by (simp add: run_def)
next
  case (Cons e evs)
  from Cons.prems have "shows_current be (step be e c)" by (rule shows_current_step)
  then have "shows_current be (run be (step be e c) evs)" by (rule Cons.IH)
  then show ?case by (simp add: run_def)
qed

lemma shows_current_mount: "shows_current be (mount pid timeout now)"
proof -
  let ?c = "\<lparr>state = initial_state, requestIdRef = 0, mountedRef = True, productId = pid,
        cacheTimeout = timeout, inflight = []\<rparr>"
  have "tokens_ok ?c" by (simp add: tokens_ok_def)
  then have "tokens_ok (fetchProduct now ?c)" by (rule tokens_ok_fetch)
  moreover have "\<not> success (state (fetchProduct now ?c))"
    by (rule fetchProduct_not_success) simp
  ultimately show ?thesis by (simp add: shows_current_def mount_def)
qed

lemma run_append: "run be c (xs @ ys) = run be (run be c xs) ys"
  by (simp add: run_def)

lemma run_Cons: "run be c (e # evs) = run be (step be e c) evs"
  by (simp add: run_def)

lemma run_Nil: "run be c [] = c"
  by (simp add: run_def)

lemma changes_productId:
  "mountedRef c \<Longrightarrow>
     productId (run be c (change_events changes)) = last (productId c # map fst changes)
     \<and> mountedRef (run be c (change_events changes))"
proof (induction changes arbitrary: c)
  case Nil
  then show ?case by (simp add: change_events_def run_Nil)
next
  case (Cons ch changes)
  obtain pid now where ch: "ch = (pid, now)" by (cases ch)
  let ?c = "step be (ChangeId pid now) c"
  from Cons.prems have m: "mountedRef ?c" and p: "productId ?c = pid"
    by auto
  from Cons.IH [OF m] p ch show ?case
    by (simp add: change_events_def run_Cons)
qed

lemma changes_product:
  "product (state (run be c (change_events changes))) = product (state c)"
proof (induction changes arbitrary: c)
  case Nil
  then show ?case by (simp add: change_events_def run_Nil)
next
  case (Cons ch changes)
  obtain pid now where ch: "ch = (pid, now)" by (cases ch)
  have "product (state (step be (ChangeId pid now) c)) = product (state c)"
    by (simp add: fetchProduct_product)
  with Cons.IH [of "step be (ChangeId pid now) c"] ch show ?case
    by (simp add: change_events_def run_Cons)
qed

lemma other_events_productId:
  "\<forall>e \<in> set evs. \<not> is_change e \<Longrightarrow> productId (run be c evs) = productId c"
proof (induction evs arbitrary: c)
  case Nil
  then show ?case by (simp add: run_Nil)
next
  case (Cons e evs)
  from Cons.prems have "\<not> is_change e" by simp
  then have "productId (step be e c) = productId c"
    by (cases e) simp_all
  with Cons show ?case by (simp add: run_Cons)
qed

lemma mount_fields:
  "mountedRef (mount p0 timeout t0)" "productId (mount p0 timeout t0) = p0"
  "product (state (mount p0 timeout t0)) = None"
  by (simp_all add: mount_def fetchProduct_product initial_state_def)

text \<open>
  C1. A response or failure whose request id is not the current value of the counter
  leaves the state, and with it the retry count, as it was. After a burst of subject-id
  changes (no fetch settling in between) no product is on show during the burst, and
  whatever happens afterwards short of another id change, in whatever order the calls in
  flight settle, a product on show is the backend's record for the last id.
\<close>

theorem C1_only_latest_request_applied:
  assumes "\<forall>e \<in> set evs. \<not> is_change e"
  shows "(\<forall>c tok err. tok \<noteq> requestIdRef c \<longrightarrow>
            state (step be (Resolve tok) c) = state c
            \<and> state (step be (Reject tok err) c) = state c)
       \<and> (\<forall>k. \<not> success (state (run be (mount p0 timeout t0) (take k (change_events changes)))))
       \<and> (success (state (run be (mount p0 timeout t0) (change_events changes @ evs))) \<longrightarrow>
            product (state (run be (mount p0 timeout t0) (change_events changes @ evs)))
              = be (last (p0 # map fst changes)))"
proof (intro conjI allI impI)
  fix c :: coordinator and tok :: nat and err :: thrown
  assume "tok \<noteq> requestIdRef c"
  then show "state (step be (Resolve tok) c) = state c"
    and "state (step be (Reject tok err) c) = state c"
    by (simp_all add: stale_resolve stale_reject del: step.simps)
next
  fix k
  have "take k (change_events changes) = change_events (take k changes)"
    by (simp add: change_events_def take_map)
  then have "product (state (run be (mount p0 timeout t0) (take k (change_events changes)))) = None"
    by (simp add: changes_product mount_fields)
  then show "\<not> success (state (run be (mount p0 timeout t0) (take k (change_events changes))))"
    by (simp add: success_def)
next
  let ?c1 = "run be (mount p0 timeout t0) (change_events changes)"
  let ?c2 = "run be (mount p0 timeout t0) (change_events changes @ evs)"
  assume s: "success (state ?c2)"
  have "shows_current be ?c2"
    by (intro shows_current_run shows_current_mount)
  with s have "product (state ?c2) = be (productId ?c2)"
    by (simp add: shows_current_def)
  moreover have "productId ?c2 = productId ?c1"
    using assms by (simp add: run_append other_events_productId)
  moreover have "productId ?c1 = last (p0 # map fst changes)"
    using changes_productId [of "mount p0 timeout t0" be changes] by (simp add: mount_fields)
  ultimately show "product (state ?c2) = be (last (p0 # map fst changes))"
    by simp
qed

lemmas eval_coordinator =
  run_def mount_def change_events_def fetchProduct_def settle_call_def call_productId_def
  on_resolved_def on_rejected_def safeSetState_def initial_state_def success_def
  truthy_str_def js_inj js_Nil Let_def sample_backend_def is_cancellation_def error_text_def
  retry_delay_def render_def cancelled_def new_APIError_def fetch_failure_def
  unknown_error_def

text \<open>
  C1 (witness). Ids A, B, C in quick succession; the calls settle in the order third,
  first, second. The product on show is the record of C.
\<close>

theorem C1_only_latest_request_applied_witness:
  "success (state (run sample_backend (mount (js ''A'') 300000 0)
      (change_events [(js ''B'', 1), (js ''C'', 2)] @ [Resolve 3, Resolve 1, Resolve 2])))
   \<and> product (state (run sample_backend (mount (js ''A'') 300000 0)
      (change_events [(js ''B'', 1), (js ''C'', 2)] @ [Resolve 3, Resolve 1, Resolve 2])))
     = sample_backend (js ''C'')"
proof -
  have ev: "\<forall>e \<in> set [Resolve 3, Resolve 1, Resolve 2]. \<not> is_change e"
    by simp
  have s: "success (state (run sample_backend (mount (js ''A'') 300000 0)
      (change_events [(js ''B'', 1), (js ''C'', 2)] @ [Resolve 3, Resolve 1, Resolve 2])))"
    by (simp add: eval_coordinator)
  with C1_only_latest_request_applied [OF ev, of sample_backend "js ''A''" 300000 0
      "[(js ''B'', 1), (js ''C'', 2)]"]
  show ?thesis by simp
qed


text \<open>
  C8. A fetch that completes with a cancellation (code \<open>REQUEST_CANCELLED\<close> or name
  \<open>AbortError\<close>) never changes the state, whatever its request id. After teardown no
  event changes the state. After the subject is replaced, a call issued before the
  replacement never changes the state when it settles, however it settles and however much
  later.
\<close>

theorem C8_cancelled_never_updates:
  "(\<forall>c tok err. is_cancellation err \<longrightarrow> state (step be (Reject tok err) c) = state c)
   \<and> (\<forall>c evs. state (run be (step be Unmount c) evs) = state c)
   \<and> (\<forall>c pid now evs tok err.
         mountedRef c \<longrightarrow> pid \<noteq> productId c \<longrightarrow> tok \<le> requestIdRef c \<longrightarrow>
           state (step be (Resolve tok) (run be (step be (ChangeId pid now) c) evs))
             = state (run be (step be (ChangeId pid now) c) evs)
           \<and> state (step be (Reject tok err) (run be (step be (ChangeId pid now) c) evs))
             = state (run be (step be (ChangeId pid now) c) evs))"
proof (intro conjI allI impI)
  fix c :: coordinator and tok :: nat and err :: thrown
  assume "is_cancellation err"
  then show "state (step be (Reject tok err) c) = state c"
    by (simp add: stale_reject del: step.simps)
next
  fix c :: coordinator and evs :: "event list"
  have "\<not> mountedRef (step be Unmount c)" by simp
  then have "state (run be (step be Unmount c) evs) = state (step be Unmount c)"
    by (rule unmounted_run)
  then show "state (run be (step be Unmount c) evs) = state c" by simp
next
  fix c :: coordinator and pid :: jstr and now :: nat and evs :: "event list"
    and tok :: nat and err :: thrown
  assume a: "mountedRef c" "pid \<noteq> productId c" "tok \<le> requestIdRef c"
  let ?c' = "run be (step be (ChangeId pid now) c) evs"
  from a have "requestIdRef (step be (ChangeId pid now) c) = requestIdRef c + 1"
    by simp
  moreover have "requestIdRef (step be (ChangeId pid now) c) \<le> requestIdRef ?c'"
    by (rule run_requestId_mono)
  ultimately have "tok \<noteq> requestIdRef ?c'"
    using a(3) by linarith
  then show "state (step be (Resolve tok) ?c') = state ?c'"
    and "state (step be (Reject tok err) ?c') = state ?c'"
    by (simp_all add: stale_resolve stale_reject del: step.simps)
qed

text \<open>
  C8 (witness). The cancelled first call leaves the state alone; after teardown the
  resolving first call leaves the component loading; after the id changes from A to B the
  resolving call for A changes nothing.
\<close>

theorem C8_cancelled_never_updates_witness:
  "state (step sample_backend (Reject 1 cancelled) (mount (js ''A'') 300000 0))
     = state (mount (js ''A'') 300000 0)
   \<and> loading (state (run sample_backend (step sample_backend Unmount (mount (js ''A'') 300000 0))
       [Resolve 1]))
   \<and> state (step sample_backend (Resolve 1)
         (run sample_backend (step sample_backend (ChangeId (js ''B'') 1) (mount (js ''A'') 300000 0)) []))
     = state (run sample_backend (step sample_backend (ChangeId (js ''B'') 1) (mount (js ''A'') 300000 0)) [])"
proof -
  have c: "is_cancellation cancelled"
    by (simp add: is_cancellation_def cancelled_def new_APIError_def)
  have m: "mountedRef (mount (js ''A'') 300000 0)"
    "js ''B'' \<noteq> productId (mount (js ''A'') 300000 0)"
    "1 \<le> requestIdRef (mount (js ''A'') 300000 0)"
    by (simp_all add: mount_fields js_inj mount_def)
  have l: "loading (state (mount (js ''A'') 300000 0))"
    by (simp add: eval_coordinator)
  from C8_cancelled_never_updates [of sample_backend] c m l show ?thesis
    by (simp del: step.simps)
qed

text \<open>
  C6 (counterexample). The claim keeps a user-triggered retry available when
  \<open>retryCount >= 3\<close>. After three failed fetches the component renders the error
  without the retry button (\<open>canRetry\<close> is false), no timer is armed, and a click has
  nothing to act on: the component stays as it is.
\<close>

theorem C6_user_retry_counterexample:
  "retryCount (state exhausted) = 3
   \<and> mountedRef exhausted
   \<and> render (state exhausted)
       = ErrorView (js ''An unexpected error occurred while processing product data'') False
   \<and> retry_delay (state exhausted) = None
   \<and> step sample_backend (ClickRetry 9000) exhausted = exhausted"
  by (simp add: exhausted_def eval_coordinator)

text \<open>
  C6 (amended). In the error state of a mounted component with a product id: while
  \<open>retryCount < 3\<close> a retry is scheduled after \<open>min(1000 * 2^retryCount, 5000)\<close> ms,
  the retry button is rendered, and either of them re-enters loading under a new request
  id; when \<open>retryCount >= 3\<close> no retry is scheduled and no retry button is rendered, so
  neither the timer nor a click starts a fetch.
\<close>

theorem C6_retry_schedule:
  assumes "mountedRef c" and "productId c \<noteq> []"
    and "\<not> loading (state c)" and "truthy_str (error (state c))"
  shows "(retryCount (state c) < 3 \<longrightarrow>
            retry_delay (state c) = Some (min (1000 * 2 ^ retryCount (state c)) 5000)
            \<and> requestIdRef (step be (RetryTimer now) c) = requestIdRef c + 1
            \<and> loading (state (step be (RetryTimer now) c))
            \<and> retry_button (render (state c))
            \<and> requestIdRef (step be (ClickRetry now) c) = requestIdRef c + 1
            \<and> loading (state (step be (ClickRetry now) c)))
       \<and> (3 \<le> retryCount (state c) \<longrightarrow>
            retry_delay (state c) = None
            \<and> step be (RetryTimer now) c = c
            \<and> \<not> retry_button (render (state c))
            \<and> step be (ClickRetry now) c = c)"
  using assms by (simp add: retry_delay_def render_def fetchProduct_state)

text \<open>
  C6 (witness). After one failure the retry is due after 2000 ms and runs under request
  id 2, and a click re-enters loading; after three failures neither is on offer.
\<close>

theorem C6_retry_schedule_witness:
  "retry_delay (state failed_once) = Some 2000
   \<and> requestIdRef (step sample_backend (RetryTimer 1000) failed_once) = 2
   \<and> loading (state (step sample_backend (ClickRetry 500) failed_once))
   \<and> step sample_backend (RetryTimer 9000) exhausted = exhausted
   \<and> \<not> retry_button (render (state exhausted))"
proof -
  have f: "mountedRef failed_once" "productId failed_once \<noteq> []"
    "\<not> loading (state failed_once)" "truthy_str (error (state failed_once))"
    "retryCount (state failed_once) = 1" "requestIdRef failed_once = 1"
    by (simp_all add: failed_once_def eval_coordinator)
  have e: "mountedRef exhausted" "productId exhausted \<noteq> []"
    "\<not> loading (state exhausted)" "truthy_str (error (state exhausted))"
    "retryCount (state exhausted) = 3"
    by (simp_all add: exhausted_def eval_coordinator)
  from C6_retry_schedule [OF f(1-4), of sample_backend 1000]
       C6_retry_schedule [OF f(1-4), of sample_backend 500]
       C6_retry_schedule [OF e(1-4), of sample_backend 9000] f(5,6) e(5)
  show ?thesis by (simp del: step.simps)
qed

end
